theory Spec2Isabelle
  imports Complex_Main
begin

section \<open>Strings and messages\<close>

text \<open>
  A Python \<open>str\<close> is a sequence of Unicode code points; file names and column names of
  \<open>app.py\<close> contain Japanese characters, so a string is a list of code points here.
  \<open>ascii\<close> turns an ASCII literal into such a string.
\<close>

type_synonym ustr = "nat list"

definition ascii :: "string \<Rightarrow> ustr" where
  "ascii s = map of_char s"

text \<open>
  The messages the script shows with \<open>st.warning\<close>, \<open>st.error\<close> and \<open>st.success\<close>:
  each call is one entry of a log, in the order of the calls.
\<close>

datatype signal =
    Warn_threshold_default ustr
  | Warn_missing_columns "ustr list"
  | Err_model_file_not_found
  | Err_model_load
  | Success_model_loaded ustr
  | Warn_venue_not_registered ustr
  | Warn_no_venue_selected

section \<open>Threshold from the file name\<close>

text \<open>
  \<open>os.path.basename\<close> on a POSIX path: what follows the last slash (code point 47).
\<close>

definition basename :: "ustr \<Rightarrow> ustr" where
  "basename p = rev (takeWhile (\<lambda>c. c \<noteq> 47) (rev p))"

text \<open>
  \<open>\d\<close>, restricted to the ASCII digits \<open>0\<close> to \<open>9\<close> (code points 48 to 57).
\<close>

definition is_digit :: "nat \<Rightarrow> bool" where
  "is_digit c \<longleftrightarrow> 48 \<le> c \<and> c \<le> 57"

text \<open>
  The pattern \<open>_(\d+\.\d+)\.txt$\<close> tried at the start of a string. The underscore is
  code point 95, the dot 46. A greedy \<open>\d+\<close> is followed by a character that is not a
  digit, so taking the longest run of digits loses no match. \<open>$\<close> matches at the end of
  the string and before a newline (code point 10) that ends it. The result is the
  captured group, as the digits before and after its dot.
\<close>

definition match_at :: "ustr \<Rightarrow> (ustr \<times> ustr) option" where
  "match_at s =
     (case s of
        [] \<Rightarrow> None
      | c # r \<Rightarrow>
          if c \<noteq> 95 then None
          else let a = takeWhile is_digit r; r1 = dropWhile is_digit r in
            if a = [] then None
            else (case r1 of
                    [] \<Rightarrow> None
                  | d # r2 \<Rightarrow>
                      if d \<noteq> 46 then None
                      else let b = takeWhile is_digit r2; r3 = dropWhile is_digit r2 in
                        if b = [] then None
                        else if r3 = ascii ''.txt'' \<or> r3 = ascii ''.txt'' @ [10]
                        then Some (a, b) else None))"

text \<open>\<open>re.search\<close>: the match at the leftmost position that has one.\<close>

fun re_search :: "ustr \<Rightarrow> (ustr \<times> ustr) option" where
  "re_search [] = match_at []"
| "re_search (c # cs) =
     (case match_at (c # cs) of Some g \<Rightarrow> Some g | None \<Rightarrow> re_search cs)"

text \<open>
  \<open>float\<close> of the captured group \<open>a.b\<close>. The value is the decimal number itself, a
  rational; its rounding to a binary64 is not modelled.
\<close>

definition digits_val :: "ustr \<Rightarrow> nat" where
  "digits_val ds = foldl (\<lambda>acc c. 10 * acc + (c - 48)) 0 ds"

definition float_of_group :: "ustr \<times> ustr \<Rightarrow> rat" where
  "float_of_group g =
     of_nat (digits_val (fst g)) + of_nat (digits_val (snd g)) / 10 ^ length (snd g)"

text \<open>
  \<open>extract_threshold_from_filename\<close>: the threshold and the warnings shown.
\<close>

definition extract_threshold_from_filename :: "ustr \<Rightarrow> rat \<times> signal list" where
  "extract_threshold_from_filename file_path =
     (let filename = basename file_path in
      case re_search filename of
        Some g \<Rightarrow> (float_of_group g, [])
      | None \<Rightarrow> (1 / 2, [Warn_threshold_default filename]))"

text \<open>
  The file name of the specification's example,
  \<open>\<dots>6_78910_3456\<dots>_0125_0.95.txt\<close> with its Japanese characters as code points.
\<close>

definition edogawa6_name :: "string \<Rightarrow> ustr" where
  "edogawa6_name ext =
     [27743, 25144, 24029] @ ascii ''6_78910_3456'' @ [20301, 12514, 12487, 12523]
       @ ascii ''_0125_0.95'' @ ascii ext"

text \<open>
  The shape the pattern asks of a file name: \<open>\d+\<close> is a run of at least one digit, and
  the file name ends with \<open>_a.b.txt\<close>, a newline after it or not.
\<close>

definition is_digits :: "ustr \<Rightarrow> bool" where
  "is_digits ds \<longleftrightarrow> ds \<noteq> [] \<and> list_all is_digit ds"



section \<open>Tables\<close>

text \<open>
  A float of the tables: \<open>NaN\<close> is the missing value, \<open>PInf\<close> and \<open>NInf\<close> the two
  infinities, \<open>Fin q\<close> a finite number. Finite numbers are rationals: rounding and the
  sign of zero are not modelled.
\<close>

datatype fnum = NaN | PInf | NInf | Fin rat

text \<open>
  A \<open>DataFrame\<close> whose cells are numbers: the column names in their order, and the rows
  in their order, each with its index label and its cells by column name. Only the
  cells under a name of \<open>columns\<close> belong to the table.
\<close>

record row =
  idx :: nat
  cell :: "ustr \<Rightarrow> fnum"

record frame =
  columns :: "ustr list"
  rows :: "row list"

text \<open>\<open>df.empty\<close>: an axis of length 0.\<close>

definition empty_frame :: "frame \<Rightarrow> bool" where
  "empty_frame df \<longleftrightarrow> columns df = [] \<or> rows df = []"

text \<open>
  \<open>df[name] = values\<close>: a new column goes last, a column that exists keeps its place.
\<close>

definition set_column :: "ustr \<Rightarrow> fnum list \<Rightarrow> frame \<Rightarrow> frame" where
  "set_column name vs df =
     \<lparr>columns = (if name \<in> set (columns df) then columns df else columns df @ [name]),
      rows = map (\<lambda>(r, v). r\<lparr>cell := (cell r)(name := v)\<rparr>) (zip (rows df) vs)\<rparr>"

text \<open>\<open>df[name] = np.nan\<close>: the scalar fills the column.\<close>

definition set_column_nan :: "ustr \<Rightarrow> frame \<Rightarrow> frame" where
  "set_column_nan name df = set_column name (replicate (length (rows df)) NaN) df"

text \<open>\<open>df.drop(columns=names)\<close>.\<close>

definition drop_columns :: "ustr list \<Rightarrow> frame \<Rightarrow> frame" where
  "drop_columns names df = df\<lparr>columns := filter (\<lambda>c. c \<notin> set names) (columns df)\<rparr>"

text \<open>
  \<open>pd.concat([a, b], axis=0)\<close>: the rows of \<open>a\<close>, then those of \<open>b\<close>, under the columns
  of \<open>a\<close> followed by the columns only \<open>b\<close> has; a row has \<open>NaN\<close> under a column that
  its own table lacks.
\<close>

definition reindex :: "frame \<Rightarrow> row \<Rightarrow> row" where
  "reindex df r = r\<lparr>cell := (\<lambda>n. if n \<in> set (columns df) then cell r n else NaN)\<rparr>"

definition concat_frames :: "frame \<Rightarrow> frame \<Rightarrow> frame" where
  "concat_frames a b =
     \<lparr>columns = columns a @ filter (\<lambda>c. c \<notin> set (columns a)) (columns b),
      rows = map (reindex a) (rows a) @ map (reindex b) (rows b)\<rparr>"

text \<open>The values of a table, row by row, each row in the order of the columns.\<close>

definition frame_values :: "frame \<Rightarrow> fnum list list" where
  "frame_values df = map (\<lambda>r. map (cell r) (columns df)) (rows df)"

section \<open>Model artifacts\<close>

text \<open>
  A \<open>lgb.Booster\<close>: its feature names, and its scoring function, which scores each row
  from the values of the row in the order they are sent (the library reads a table by
  position). The models themselves are not part of the repository.
\<close>

record booster =
  feature_name :: "ustr list"
  predict :: "fnum list \<Rightarrow> fnum"

datatype exn = FileNotFoundError | OtherError | KeyError ustr | ValueError | OverflowError

text \<open>
  The file system under \<open>BASE_DIR\<close>, by relative path: whether a file exists, and
  what \<open>lgb.Booster(model_file=...)\<close> does with it, an exception or a booster.
\<close>

record storage =
  path_exists :: "ustr \<Rightarrow> bool"
  load_booster :: "ustr \<Rightarrow> exn + booster"

text \<open>The strings of \<open>MODEL_PATHS\<close>, as code points.\<close>

definition model_dir :: ustr where
  "model_dir = [12514, 12487, 12523, 47, 19968, 26376, 29992, 12514, 12487, 12523, 47]"

definition rank_model :: ustr where
  "rank_model = [20301, 12514, 12487, 12523]"

definition kiryu :: ustr where "kiryu = [26704, 29983]"
definition biwako :: ustr where "biwako = [12403, 12431, 12371]"
definition tsu :: ustr where "tsu = [27941]"
definition edogawa :: ustr where "edogawa = [27743, 25144, 24029]"
definition tokuyama :: ustr where "tokuyama = [24499, 23665]"
definition shimonoseki :: ustr where "shimonoseki = [19979, 38306]"
definition fukuoka :: ustr where "fukuoka = [31119, 23713]"

text \<open>
  A path of the table: directory, venue, lanes, ranks and threshold, as in
  \<open>model_dir venue 1_5_78910_456 rank_model _0125_0.79.txt\<close>.
\<close>

definition model_file :: "ustr \<Rightarrow> string \<Rightarrow> string \<Rightarrow> ustr" where
  "model_file venue lanes_ranks thr =
     model_dir @ venue @ ascii lanes_ranks @ rank_model @ ascii ''_0125_'' @ ascii thr @ ascii ''.txt''"

text \<open>
  \<open>MODEL_PATHS\<close>: for each venue the paths under the keys \<open>course_1\<close> and \<open>course_6\<close>,
  in the order of the dictionary.
\<close>

definition MODEL_PATHS :: "(ustr \<times> ustr \<times> ustr) list" where
  "MODEL_PATHS =
     [(kiryu, model_file kiryu ''1_5_78910_56'' ''0.68'', model_file kiryu ''6_78910_56'' ''0.64''),
      (biwako, model_file biwako ''1_5_78910_456'' ''0.79'', model_file biwako ''6_78910_56'' ''0.63''),
      (tsu, model_file tsu ''1_5_78910_456'' ''0.72'', model_file tsu ''6_78910_456'' ''0.83''),
      (edogawa, model_file edogawa ''1_5_78910_456'' ''0.82'', model_file edogawa ''6_78910_3456'' ''0.95''),
      (tokuyama, model_file tokuyama ''1_5_78910_56'' ''0.68'', model_file tokuyama ''6_78910_56'' ''0.74''),
      (shimonoseki, model_file shimonoseki ''1_5_78910_56'' ''0.8'', model_file shimonoseki ''6_78910_56'' ''0.53''),
      (fukuoka, model_file fukuoka ''1_5_78910_456'' ''0.76'', model_file fukuoka ''6_78910_456'' ''0.82'')]"

section \<open>Inference\<close>

text \<open>
  The column names the script reads and writes: the lane (\<open>col_course\<close>), the day, the
  round, and the score and flag columns of the two models.
\<close>

definition col_course :: ustr where "col_course = [12467, 12540, 12473]"
definition col_day :: ustr where "col_day = [26085]"
definition col_round :: ustr where "col_round = [12521, 12454, 12531, 12489]"
definition col_pred15_score :: ustr where
  "col_pred15_score = [49, 95, 53, 21495, 33351, 30528, 22806, 20104, 28204, 25968, 20516]"
definition col_pred15 :: ustr where
  "col_pred15 = [49, 95, 53, 21495, 33351, 30528, 22806, 20104, 28204]"
definition col_pred6_score :: ustr where
  "col_pred6_score = [54, 21495, 33351, 30528, 22806, 20104, 28204, 25968, 20516]"
definition col_pred6 :: ustr where
  "col_pred6 = [54, 21495, 33351, 30528, 22806, 20104, 28204]"

text \<open>
  \<open>required_columns\<close>: the feature names of the \<open>course_1\<close> model of the venue, or of
  the first venue of \<open>MODEL_PATHS\<close> when the venue is not set or not registered; the
  columns of the table itself when that file does not exist or does not load.
\<close>

definition venue_name_of :: "ustr option \<Rightarrow> ustr option" where
  "venue_name_of selected_venue_name =
     (case selected_venue_name of
        None \<Rightarrow> None
      | Some v \<Rightarrow> if v \<noteq> [] then Some v else None)"

definition required_columns :: "storage \<Rightarrow> ustr option \<Rightarrow> frame \<Rightarrow> ustr list" where
  "required_columns st venue_name test_df =
     (let model_path =
        (case venue_name of
           Some v \<Rightarrow> (case map_of MODEL_PATHS v of
                        Some p \<Rightarrow> fst p
                      | None \<Rightarrow> fst (snd (hd MODEL_PATHS)))
         | None \<Rightarrow> fst (snd (hd MODEL_PATHS)))
      in if path_exists st model_path
         then (case load_booster st model_path of
                 Inr bst \<Rightarrow> feature_name bst
               | Inl e \<Rightarrow> columns test_df)
         else columns test_df)"

text \<open>
  The alignment of the table with \<open>required_columns\<close>: each missing column is set to
  \<open>NaN\<close>, then the extra columns are dropped.
\<close>

definition missing_columns :: "ustr list \<Rightarrow> frame \<Rightarrow> ustr list" where
  "missing_columns required test_df = filter (\<lambda>col. col \<notin> set (columns test_df)) required"

definition extra_columns :: "ustr list \<Rightarrow> frame \<Rightarrow> ustr list" where
  "extra_columns required test_df = filter (\<lambda>col. col \<notin> set required) (columns test_df)"

definition align :: "ustr list \<Rightarrow> frame \<Rightarrow> frame" where
  "align required test_df =
     (let missing = missing_columns required test_df;
          extra = extra_columns required test_df;
          df1 = foldl (\<lambda>df col. set_column_nan col df) test_df missing
      in if extra \<noteq> [] then drop_columns extra df1 else df1)"

text \<open>\<open>pred > threshold\<close> on floats, and \<open>(pred > threshold).astype(int)\<close>.\<close>

definition fgt :: "fnum \<Rightarrow> rat \<Rightarrow> bool" where
  "fgt x t = (case x of NaN \<Rightarrow> False | PInf \<Rightarrow> True | NInf \<Rightarrow> False | Fin q \<Rightarrow> q > t)"

definition binarize :: "rat \<Rightarrow> fnum list \<Rightarrow> int list" where
  "binarize threshold pred = map (\<lambda>p. if fgt p threshold then 1 else 0) pred"

text \<open>
  What the script has in hand while it runs: the two tables, the messages shown, the
  calls of \<open>predict\<close> made (the path of the model, the columns sent in their order and
  the index labels of the rows sent), and \<open>model_info_list\<close>.
\<close>

record predict_call =
  model_path :: ustr
  sent_columns :: "ustr list"
  sent_rows :: "nat list"

record session =
  test_df :: frame
  test_df6 :: frame
  signals :: "signal list"
  calls :: "predict_call list"
  model_info_list :: "(ustr \<times> rat) list"

text \<open>
  The two blocks of the \<open>try\<close> statement. Each resolves the threshold, loads the model,
  scores its table and attaches the score and flag columns; an exception leaves the block
  with the session as it is at that point.
\<close>

definition score_course_1 :: "storage \<Rightarrow> ustr \<Rightarrow> session \<Rightarrow> exn \<times> session + session" where
  "score_course_1 st model_path_1 s =
     (if \<not> empty_frame (test_df s) then
        (let (threshold_1, w) = extract_threshold_from_filename model_path_1;
             s1 = s\<lparr>signals := signals s @ w\<rparr>
         in case load_booster st model_path_1 of
              Inl e \<Rightarrow> Inl (e, s1)
            | Inr bst_1 \<Rightarrow>
                (let pred1 = map (predict bst_1) (frame_values (test_df s1));
                     df1 = set_column col_pred15_score pred1 (test_df s1);
                     pred1_binary = binarize threshold_1 pred1;
                     df2 = set_column col_pred15 (map (\<lambda>i. Fin (of_int i)) pred1_binary) df1
                 in Inr (s1\<lparr>test_df := df2,
                            calls := calls s1 @
                              [\<lparr>model_path = model_path_1, sent_columns = columns (test_df s1),
                                sent_rows = map idx (rows (test_df s1))\<rparr>],
                            model_info_list := model_info_list s1 @
                              [(basename model_path_1, threshold_1)]\<rparr>)))
      else Inr s)"

definition score_course_6 :: "storage \<Rightarrow> ustr \<Rightarrow> session \<Rightarrow> exn \<times> session + session" where
  "score_course_6 st model_path_6 s =
     (if \<not> empty_frame (test_df6 s) then
        (let (threshold_6, w) = extract_threshold_from_filename model_path_6;
             s1 = s\<lparr>signals := signals s @ w\<rparr>
         in case load_booster st model_path_6 of
              Inl e \<Rightarrow> Inl (e, s1)
            | Inr bst_6 \<Rightarrow>
                (let pred6 = map (predict bst_6) (frame_values (test_df6 s1));
                     df1 = set_column col_pred6_score pred6 (test_df6 s1);
                     pred6_binary = binarize threshold_6 pred6;
                     df2 = set_column col_pred6 (map (\<lambda>i. Fin (of_int i)) pred6_binary) df1
                 in Inr (s1\<lparr>test_df6 := df2,
                            calls := calls s1 @
                              [\<lparr>model_path = model_path_6, sent_columns = columns (test_df6 s1),
                                sent_rows = map idx (rows (test_df6 s1))\<rparr>],
                            model_info_list := model_info_list s1 @
                              [(basename model_path_6, threshold_6)]\<rparr>)))
      else Inr s)"

text \<open>
  The \<open>try\<close> statement with its two handlers, and the branch for a venue that is not set
  or not registered.
\<close>

definition handler :: "exn \<times> session \<Rightarrow> session" where
  "handler es =
     (case es of (e, s) \<Rightarrow>
        s\<lparr>signals := signals s @
             [if e = FileNotFoundError then Err_model_file_not_found else Err_model_load]\<rparr>)"

definition load_and_score :: "storage \<Rightarrow> ustr option \<Rightarrow> session \<Rightarrow> session" where
  "load_and_score st venue_name s =
     (case venue_name of
        None \<Rightarrow> s\<lparr>signals := signals s @ [Warn_no_venue_selected]\<rparr>
      | Some v \<Rightarrow>
          (case map_of MODEL_PATHS v of
             None \<Rightarrow> s\<lparr>signals := signals s @ [Warn_venue_not_registered v]\<rparr>
           | Some p \<Rightarrow>
               (case score_course_1 st (fst p) s of
                  Inl es \<Rightarrow> handler es
                | Inr s1 \<Rightarrow>
                    (case score_course_6 st (snd p) s1 of
                       Inl es \<Rightarrow> handler es
                     | Inr s2 \<Rightarrow>
                         if model_info_list s2 \<noteq> []
                         then s2\<lparr>signals := signals s2 @ [Success_model_loaded v]\<rparr>
                         else s2))))"

text \<open>
  The script from the prepared table to the table it displays. The conversion of
  \<open>cols_to_convert\<close> to float changes no cell of a table of floats. The selection of the
  rows of lane 6 raises \<open>KeyError\<close> when the aligned table has no lane column, and
  nothing catches it.
\<close>

definition run_inference :: "storage \<Rightarrow> ustr option \<Rightarrow> frame \<Rightarrow> exn + session" where
  "run_inference st selected_venue_name prepared =
     (let required = required_columns st (venue_name_of selected_venue_name) prepared;
          missing = missing_columns required prepared;
          df = align required prepared
      in if col_course \<notin> set (columns df) then Inl (KeyError col_course)
         else
           (let df6 = df\<lparr>rows := filter (\<lambda>r. cell r col_course = Fin 6) (rows df)\<rparr>;
                s0 = \<lparr>test_df = df, test_df6 = df6,
                      signals = (if missing \<noteq> [] then [Warn_missing_columns missing] else []),
                      calls = [], model_info_list = []\<rparr>;
                s1 = load_and_score st (venue_name_of selected_venue_name) s0
            in if col_day \<in> set (columns (test_df s1)) \<and> col_round \<in> set (columns (test_df s1))
               then Inr (s1\<lparr>test_df :=
                              concat_frames ((test_df s1)\<lparr>rows := take 5 (rows (test_df s1))\<rparr>)
                                (test_df6 s1)\<rparr>)
               else Inr s1))"

section \<open>Notions used in the statements\<close>

text \<open>
  The row of the aligned table: \<open>NaN\<close> under the inserted columns. The table with
  the score and flag columns of a model attached, the record of a call of \<open>predict\<close>,
  the rows of lane 6, the reassembled table, and the messages of the handlers and of the
  missing columns, as the script computes them.
\<close>

definition nan_under :: "ustr list \<Rightarrow> row \<Rightarrow> row" where
  "nan_under ms r = r\<lparr>cell := (\<lambda>n. if n \<in> set ms then NaN else cell r n)\<rparr>"

definition attach :: "ustr \<Rightarrow> ustr \<Rightarrow> booster \<Rightarrow> rat \<Rightarrow> frame \<Rightarrow> frame" where
  "attach score_col flag_col bst threshold df =
     set_column flag_col
       (map (\<lambda>i. Fin (of_int i)) (binarize threshold (map (predict bst) (frame_values df))))
       (set_column score_col (map (predict bst) (frame_values df)) df)"

definition call_of :: "ustr \<Rightarrow> frame \<Rightarrow> predict_call" where
  "call_of p df = \<lparr>model_path = p, sent_columns = columns df, sent_rows = map idx (rows df)\<rparr>"

definition lane6 :: "frame \<Rightarrow> frame" where
  "lane6 df = df\<lparr>rows := filter (\<lambda>r. cell r col_course = Fin 6) (rows df)\<rparr>"

definition reassemble :: "frame \<Rightarrow> frame \<Rightarrow> frame" where
  "reassemble d d6 =
     (if col_day \<in> set (columns d) \<and> col_round \<in> set (columns d)
      then concat_frames (d\<lparr>rows := take 5 (rows d)\<rparr>) d6 else d)"

definition error_signal :: "exn \<Rightarrow> signal" where
  "error_signal e = (if e = FileNotFoundError then Err_model_file_not_found else Err_model_load)"

definition missing_signal :: "ustr list \<Rightarrow> frame \<Rightarrow> signal list" where
  "missing_signal required df =
     (if missing_columns required df \<noteq> [] then [Warn_missing_columns (missing_columns required df)] else [])"

text \<open>
  What a run shows and has had scored: the messages in their order and, for each call of
  \<open>predict\<close>, the model and the index labels of the rows sent.
\<close>

definition report :: "exn + session \<Rightarrow> exn + signal list \<times> (ustr \<times> nat list) list" where
  "report r =
     (case r of
        Inl e \<Rightarrow> Inl e
      | Inr out \<Rightarrow> Inr (signals out, map (\<lambda>c. (model_path c, sent_rows c)) (calls out)))"

section \<open>Example inputs\<close>

text \<open>
  A table of six rows with lanes 1 to 6 and one column that no model asks for; a booster
  that asks for one column the table lacks and scores a row by the first value it is
  sent; a storage that holds the two models of one venue, or only one of them.
\<close>

definition example_row :: "nat \<Rightarrow> row" where
  "example_row i =
     \<lparr>idx = i,
      cell = (\<lambda>n. if n = col_course then Fin (of_nat (i + 1))
                  else if n = col_day then Fin 5
                  else if n = col_round then Fin 3
                  else Fin 7)\<rparr>"

definition example_df :: frame where
  "example_df =
     \<lparr>columns = [col_course, col_day, col_round, ascii ''extra''],
      rows = map example_row [0, 1, 2, 3, 4, 5]\<rparr>"

definition example_booster :: "rat \<Rightarrow> booster" where
  "example_booster k =
     \<lparr>feature_name = [col_day, col_course, col_round, ascii ''more''],
      predict = (\<lambda>vs. case vs of Fin q # rest \<Rightarrow> Fin (q * k) | _ \<Rightarrow> NaN)\<rparr>"

definition edogawa_1 :: ustr where "edogawa_1 = model_file edogawa ''1_5_78910_456'' ''0.82''"
definition edogawa_6 :: ustr where "edogawa_6 = model_file edogawa ''6_78910_3456'' ''0.95''"

definition example_storage :: "bool \<Rightarrow> bool \<Rightarrow> storage" where
  "example_storage has1 has6 =
     \<lparr>path_exists = (\<lambda>p. (p = edogawa_1 \<and> has1) \<or> (p = edogawa_6 \<and> has6)),
      load_booster = (\<lambda>p. if p = edogawa_1 \<and> has1 then Inr (example_booster (1 / 5))
                           else if p = edogawa_6 \<and> has6 then Inr (example_booster (1 / 6))
                           else Inl FileNotFoundError)\<rparr>"

text \<open>
  A venue of the list of the page that has no entry in \<open>MODEL_PATHS\<close>, and the example
  of the specification for the alignment: a table with the columns A, C, D and one row.
\<close>

definition toda :: ustr where "toda = [25144, 30000]"

definition example_acd :: frame where
  "example_acd =
     \<lparr>columns = [ascii ''A'', ascii ''C'', ascii ''D''],
      rows = [\<lparr>idx = 0, cell = (\<lambda>n. Fin 1)\<rparr>]\<rparr>"

text \<open>The session of the example before the models are loaded.\<close>

definition example_session :: session where
  "example_session =
     \<lparr>test_df = example_df,
      test_df6 = example_df\<lparr>rows := filter (\<lambda>r. cell r col_course = Fin 6) (rows example_df)\<rparr>,
      signals = [], calls = [], model_info_list = []\<rparr>"

section \<open>Feature derivation\<close>

subsection \<open>Float arithmetic\<close>

text \<open>
  The arithmetic of the columns: \<open>NaN\<close> propagates, the infinities follow IEEE 754, and a
  division by zero gives an infinity or \<open>NaN\<close> as in a \<open>Series\<close> (every zero is the
  positive zero). Finite results are exact.
\<close>

fun fneg :: "fnum \<Rightarrow> fnum" where
  "fneg NaN = NaN"
| "fneg PInf = NInf"
| "fneg NInf = PInf"
| "fneg (Fin a) = Fin (- a)"

fun fadd :: "fnum \<Rightarrow> fnum \<Rightarrow> fnum" where
  "fadd (Fin a) (Fin b) = Fin (a + b)"
| "fadd NaN y = NaN"
| "fadd x NaN = NaN"
| "fadd PInf NInf = NaN"
| "fadd NInf PInf = NaN"
| "fadd PInf y = PInf"
| "fadd NInf y = NInf"
| "fadd (Fin a) y = y"

definition fsub :: "fnum \<Rightarrow> fnum \<Rightarrow> fnum" where
  "fsub x y = fadd x (fneg y)"

fun fmul :: "fnum \<Rightarrow> fnum \<Rightarrow> fnum" where
  "fmul (Fin a) (Fin b) = Fin (a * b)"
| "fmul NaN y = NaN"
| "fmul x NaN = NaN"
| "fmul (Fin a) y = (if a = 0 then NaN else if 0 < a then y else fneg y)"
| "fmul x (Fin b) = (if b = 0 then NaN else if 0 < b then x else fneg x)"
| "fmul PInf y = y"
| "fmul NInf y = fneg y"

fun fdiv :: "fnum \<Rightarrow> fnum \<Rightarrow> fnum" where
  "fdiv (Fin a) (Fin b) =
     (if b = 0 then (if a = 0 then NaN else if 0 < a then PInf else NInf) else Fin (a / b))"
| "fdiv NaN y = NaN"
| "fdiv x NaN = NaN"
| "fdiv (Fin a) y = Fin 0"
| "fdiv x (Fin b) = (if 0 \<le> b then x else fneg x)"
| "fdiv x y = NaN"

text \<open>\<open>x < y\<close> on floats: false when one side is \<open>NaN\<close>.\<close>

fun flt :: "fnum \<Rightarrow> fnum \<Rightarrow> bool" where
  "flt (Fin a) (Fin b) = (a < b)"
| "flt NaN y = False"
| "flt x NaN = False"
| "flt NInf y = (y \<noteq> NInf)"
| "flt x PInf = (x \<noteq> PInf)"
| "flt x y = False"

text \<open>\<open>fillna(0)\<close> on one cell, and a Boolean as the integer of \<open>astype(int)\<close>.\<close>

definition fillna0 :: "fnum \<Rightarrow> fnum" where
  "fillna0 x = (if x = NaN then Fin 0 else x)"

definition of_flag :: "bool \<Rightarrow> fnum" where
  "of_flag b = (if b then Fin 1 else Fin 0)"

text \<open>
  The aggregations of a group, which skip \<open>NaN\<close>: the mean, the maximum and the minimum
  of the values that are not \<open>NaN\<close>, and \<open>NaN\<close> when there is none.
\<close>

definition fsum :: "fnum list \<Rightarrow> fnum" where
  "fsum xs = foldl fadd (Fin 0) xs"

definition fmax :: "fnum \<Rightarrow> fnum \<Rightarrow> fnum" where
  "fmax x y = (if flt x y then y else x)"

definition fmin :: "fnum \<Rightarrow> fnum \<Rightarrow> fnum" where
  "fmin x y = (if flt y x then y else x)"

definition agg_mean :: "fnum list \<Rightarrow> fnum" where
  "agg_mean vs =
     (let xs = filter (\<lambda>x. x \<noteq> NaN) vs
      in if xs = [] then NaN else fdiv (fsum xs) (Fin (of_nat (length xs))))"

definition agg_max :: "fnum list \<Rightarrow> fnum" where
  "agg_max vs =
     (let xs = filter (\<lambda>x. x \<noteq> NaN) vs
      in if xs = [] then NaN else foldl fmax (hd xs) (tl xs))"

definition agg_min :: "fnum list \<Rightarrow> fnum" where
  "agg_min vs =
     (let xs = filter (\<lambda>x. x \<noteq> NaN) vs
      in if xs = [] then NaN else foldl fmin (hd xs) (tl xs))"

subsection \<open>Raw records and the library\<close>

text \<open>
  One row of the table that the page builds for a race: the texts cut from the page, the
  lane and the round as integers, the day as a text of two digits, in the order of the
  columns of the table.
\<close>

record raw_record =
  raw_name :: ustr
  raw_age :: ustr
  raw_weight :: ustr
  raw_class :: ustr
  raw_f_count :: ustr
  raw_l_count :: ustr
  raw_mean_st :: ustr
  raw_win_nat :: ustr
  raw_win2_nat :: ustr
  raw_win3_nat :: ustr
  raw_win_loc :: ustr
  raw_win2_loc :: ustr
  raw_win3_loc :: ustr
  raw_motor_num :: ustr
  raw_motor2 :: ustr
  raw_motor3 :: ustr
  raw_boat_num :: ustr
  raw_boat2 :: ustr
  raw_boat3 :: ustr
  raw_course :: int
  raw_day :: ustr
  raw_round :: int
  raw_start_ex :: ustr
  raw_tilt :: ustr

text \<open>
  The two conversions of the library that read a number from a text, as parameters:
  \<open>to_numeric\<close> is \<open>pd.to_numeric(errors='coerce')\<close> on one text, \<open>NaN\<close> when the text
  is not a number; \<open>to_float\<close> is the conversion of \<open>astype(float)\<close>, which raises
  \<open>ValueError\<close> (here \<open>None\<close>) when the text is not a number.
\<close>

record pylib =
  to_numeric :: "ustr \<Rightarrow> fnum"
  to_float :: "ustr \<Rightarrow> fnum option"

text \<open>
  \<open>str.strip()\<close> removes the white space of Python at both ends;
  \<open>str.replace(c, '', regex=False)\<close> removes a character; \<open>str\<close> of an integer.
\<close>

definition is_space :: "nat \<Rightarrow> bool" where
  "is_space c \<longleftrightarrow>
     (9 \<le> c \<and> c \<le> 13) \<or> (28 \<le> c \<and> c \<le> 32) \<or> c = 133 \<or> c = 160 \<or> c = 5760
     \<or> (8192 \<le> c \<and> c \<le> 8202) \<or> c = 8232 \<or> c = 8233 \<or> c = 8239 \<or> c = 8287 \<or> c = 12288"

definition strip :: "ustr \<Rightarrow> ustr" where
  "strip s = rev (dropWhile is_space (rev (dropWhile is_space s)))"

definition remove_char :: "nat \<Rightarrow> ustr \<Rightarrow> ustr" where
  "remove_char c s = filter (\<lambda>d. d \<noteq> c) s"

fun str_nat :: "nat \<Rightarrow> ustr" where
  "str_nat n = (if n < 10 then [48 + n] else str_nat (n div 10) @ [48 + n mod 10])"

definition str_int :: "int \<Rightarrow> ustr" where
  "str_int i = (if i < 0 then 45 # str_nat (nat (- i)) else str_nat (nat i))"

subsection \<open>Column names\<close>

text \<open>
  The names of the columns of \<open>prepare_df\<close>, as code points, in the order in which the
  function meets them; \<open>sfx_overall\<close>, \<open>sfx_opp_mean\<close> and \<open>sfx_diff\<close> are the suffixes
  of the names that the function builds.
\<close>

definition c_age :: ustr where
  "c_age = [24180, 40802]"

definition c_weight :: ustr where
  "c_weight = [20307, 37325]"

definition c_class :: ustr where
  "c_class = [12463, 12521, 12473]"

definition c_f_count :: ustr where
  "c_f_count = [70, 25968]"

definition c_mean_st :: ustr where
  "c_mean_st = [24179, 22343, 83, 84]"

definition c_win_nat :: ustr where
  "c_win_nat = [21213, 29575, 95, 20840, 22269]"

definition c_win2_nat :: ustr where
  "c_win2_nat = [50, 36899, 29575, 95, 20840, 22269]"

definition c_win3_nat :: ustr where
  "c_win3_nat = [51, 36899, 29575, 95, 20840, 22269]"

definition c_win_loc :: ustr where
  "c_win_loc = [21213, 29575, 95, 24403, 22320]"

definition c_win2_loc :: ustr where
  "c_win2_loc = [50, 36899, 29575, 95, 24403, 22320]"

definition c_win3_loc :: ustr where
  "c_win3_loc = [51, 36899, 29575, 95, 24403, 22320]"

definition c_motor_num :: ustr where
  "c_motor_num = [12514, 12540, 12479, 12540, 12490, 12531, 12496, 12540]"

definition c_motor2 :: ustr where
  "c_motor2 = [12514, 12540, 12479, 12540, 50, 36899, 29575]"

definition c_motor3 :: ustr where
  "c_motor3 = [12514, 12540, 12479, 12540, 51, 36899, 29575]"

definition c_boat_num :: ustr where
  "c_boat_num = [12508, 12540, 12488, 12490, 12531, 12496, 12540]"

definition c_boat2 :: ustr where
  "c_boat2 = [12508, 12540, 12488, 50, 36899, 29575]"

definition c_boat3 :: ustr where
  "c_boat3 = [12508, 12540, 12488, 51, 36899, 29575]"

definition c_start_ex :: ustr where
  "c_start_ex = [12473, 12479, 12540, 12488, 23637, 31034]"

definition c_tilt :: ustr where
  "c_tilt = [12481, 12523, 12488]"

definition c_class_rank :: ustr where
  "c_class_rank = [12463, 12521, 12473, 12521, 12531, 12463]"

definition c_st_stability :: ustr where
  "c_st_stability = [83, 84, 23433, 23450, 12473, 12467, 12450]"

definition c_win_diff :: ustr where
  "c_win_diff = [21213, 29575, 95, 100, 105, 102, 102]"

definition c_win2_diff :: ustr where
  "c_win2_diff = [50, 36899, 29575, 95, 100, 105, 102, 102]"

definition c_win3_diff :: ustr where
  "c_win3_diff = [51, 36899, 29575, 95, 100, 105, 102, 102]"

definition c_win_total :: ustr where
  "c_win_total = [21213, 29575, 32207, 21512]"

definition c_place_stability :: ustr where
  "c_place_stability = [36899, 23550, 23433, 23450, 24230]"

definition c_motor_power :: ustr where
  "c_motor_power = [12514, 12540, 12479, 12540, 12497, 12527, 12540]"

definition c_boat_power :: ustr where
  "c_boat_power = [12508, 12540, 12488, 12497, 12527, 12540]"

definition c_power_diff :: ustr where
  "c_power_diff = [27231, 21147, 24046]"

definition c_power_total :: ustr where
  "c_power_total = [32207, 21512, 27231, 21147]"

definition c_inside_score :: ustr where
  "c_inside_score = [12452, 12531, 26377, 21033, 12473, 12467, 12450]"

definition c_course_inv :: ustr where
  "c_course_inv = [12467, 12540, 12473, 36870, 25968]"

definition c_overall :: ustr where
  "c_overall = [32207, 21512, 21147, 12473, 12467, 12450]"

definition c_course_fit :: ustr where
  "c_course_fit = [12467, 12540, 12473, 36969, 24540, 12473, 12467, 12450]"

definition c_class_power :: ustr where
  "c_class_power = [12463, 12521, 12473, 27231, 21147, 12473, 12467, 12450]"

definition c_st_win :: ustr where
  "c_st_win = [83, 84, 21213, 29575, 36899, 21205]"

definition c_weight_st :: ustr where
  "c_weight_st = [20307, 37325, 83, 84, 27604]"

definition sfx_overall :: ustr where
  "sfx_overall = [20840, 20307]"

definition sfx_opp_mean :: ustr where
  "sfx_opp_mean = [95, 25973, 24179, 22343]"

definition sfx_diff :: ustr where
  "sfx_diff = [95, 24046]"

definition c_opp_class_rank :: ustr where
  "c_opp_class_rank = [25973, 24179, 22343, 12463, 12521, 12473, 12521, 12531, 12463]"

definition c_class_adv :: ustr where
  "c_class_adv = [12463, 12521, 12473, 20778, 20301]"

definition c_ex_mean_diff :: ustr where
  "c_ex_mean_diff = [12473, 12479, 12540, 12488, 23637, 31034, 95, 24179, 22343, 12392, 12398, 24046]"

definition c_ex_rank :: ustr where
  "c_ex_rank = [12473, 12479, 12540, 12488, 23637, 31034, 95, 38918, 20301]"

definition c_ex_min_diff :: ustr where
  "c_ex_min_diff = [12473, 12479, 12540, 12488, 23637, 31034, 95, 26368, 36895, 24046]"

definition c_ex_course_diff :: ustr where
  "c_ex_course_diff = [12473, 12479, 12540, 12488, 23637, 31034, 95, 12467, 12540, 12473, 24179, 22343, 12392, 12398, 24046]"

definition c_course_ex :: ustr where
  "c_course_ex = [12467, 12540, 12473, 95, 12473, 12479, 12540, 12488, 23637, 31034]"

definition c_tilt_plus :: ustr where
  "c_tilt_plus = [12481, 12523, 12488, 95, 12503, 12521, 12473]"

definition c_tilt_cat :: ustr where
  "c_tilt_cat = [12481, 12523, 12488, 95, 99, 97, 116]"

definition c_ex_tilt :: ustr where
  "c_ex_tilt = [12473, 12479, 12540, 12488, 23637, 31034, 95, 12481, 12523, 12488]"

definition c_tilt_course :: ustr where
  "c_tilt_course = [12481, 12523, 12488, 95, 12467, 12540, 12473]"

text \<open>The names \<open>col_stat_overall\<close> of the race statistics and the two names of an opponent feature.\<close>

definition stat_name :: "ustr \<Rightarrow> string \<Rightarrow> ustr" where
  "stat_name col stat = col @ [95] @ ascii stat @ [95] @ sfx_overall"

definition opp_mean_name :: "ustr \<Rightarrow> ustr" where
  "opp_mean_name col = col @ sfx_opp_mean"

definition diff_name :: "ustr \<Rightarrow> ustr" where
  "diff_name col = col @ sfx_diff"

subsection \<open>The columns of one row\<close>

text \<open>The cleaning of the raw columns (lines 84 to 135 of \<open>app.py\<close>).\<close>

definition v_start_ex0 :: "pylib \<Rightarrow> raw_record \<Rightarrow> fnum" where
  "v_start_ex0 lib r = to_numeric lib (strip (remove_char 160 (raw_start_ex r)))"

definition v_tilt0 :: "pylib \<Rightarrow> raw_record \<Rightarrow> fnum" where
  "v_tilt0 lib r = to_numeric lib (strip (remove_char 160 (raw_tilt r)))"

definition age_float :: "pylib \<Rightarrow> raw_record \<Rightarrow> fnum option" where
  "age_float lib r = to_float lib (take 2 (raw_age r))"

definition v_weight :: "pylib \<Rightarrow> raw_record \<Rightarrow> fnum" where
  "v_weight lib r = to_numeric lib (remove_char 47 (raw_weight r))"

definition v_mean_st :: "pylib \<Rightarrow> raw_record \<Rightarrow> fnum" where
  "v_mean_st lib r = (if raw_mean_st r = [45] then NaN else to_numeric lib (raw_mean_st r))"

text \<open>
  The count of false starts: the first run of digits of the text, 0 when there is none,
  as a 64-bit integer; \<open>astype(int)\<close> raises \<open>OverflowError\<close> (here \<open>None\<close>) on a number
  that does not fit.
\<close>

definition f_count_int :: "raw_record \<Rightarrow> int option" where
  "f_count_int r =
     (let ds = takeWhile is_digit (dropWhile (\<lambda>c. \<not> is_digit c) (raw_f_count r))
      in if ds = [] then Some 0
         else if int (digits_val ds) < 2 ^ 63 then Some (int (digits_val ds)) else None)"

definition class_map :: "(ustr \<times> rat) list" where
  "class_map = [(ascii ''A1'', 4), (ascii ''A2'', 3), (ascii ''B1'', 2), (ascii ''B2'', 1)]"

definition v_class_rank :: "raw_record \<Rightarrow> fnum" where
  "v_class_rank r = (case map_of class_map (raw_class r) of Some k \<Rightarrow> Fin k | None \<Rightarrow> Fin 0)"

definition rate :: "pylib \<Rightarrow> ustr \<Rightarrow> fnum" where
  "rate lib s = fillna0 (to_numeric lib (strip (remove_char 32 (remove_char 37 s))))"

definition v_course :: "raw_record \<Rightarrow> fnum" where
  "v_course r = Fin (of_int (raw_course r))"

definition v_motor_num :: "pylib \<Rightarrow> raw_record \<Rightarrow> fnum" where
  "v_motor_num lib r = fillna0 (to_numeric lib (raw_motor_num r))"

definition v_boat_num :: "pylib \<Rightarrow> raw_record \<Rightarrow> fnum" where
  "v_boat_num lib r = fillna0 (to_numeric lib (raw_boat_num r))"

text \<open>The derived features of one row (lines 138 to 160).\<close>

definition v_st_stability :: "pylib \<Rightarrow> raw_record \<Rightarrow> fnum" where
  "v_st_stability lib r = fdiv (Fin 1) (fadd (v_mean_st lib r) (Fin (1 / 100)))"

definition v_win_diff :: "pylib \<Rightarrow> raw_record \<Rightarrow> fnum" where
  "v_win_diff lib r = fsub (rate lib (raw_win_loc r)) (rate lib (raw_win_nat r))"

definition v_win2_diff :: "pylib \<Rightarrow> raw_record \<Rightarrow> fnum" where
  "v_win2_diff lib r = fsub (rate lib (raw_win2_loc r)) (rate lib (raw_win2_nat r))"

definition v_win3_diff :: "pylib \<Rightarrow> raw_record \<Rightarrow> fnum" where
  "v_win3_diff lib r = fsub (rate lib (raw_win3_loc r)) (rate lib (raw_win3_nat r))"

definition v_win_total :: "pylib \<Rightarrow> raw_record \<Rightarrow> fnum" where
  "v_win_total lib r = fdiv (fadd (rate lib (raw_win_nat r)) (rate lib (raw_win_loc r))) (Fin 2)"

definition v_place_stability :: "pylib \<Rightarrow> raw_record \<Rightarrow> fnum" where
  "v_place_stability lib r = fdiv (fadd (rate lib (raw_win2_nat r)) (rate lib (raw_win3_nat r))) (Fin 2)"

definition v_motor_power :: "pylib \<Rightarrow> raw_record \<Rightarrow> fnum" where
  "v_motor_power lib r = fdiv (fadd (rate lib (raw_motor2 r)) (rate lib (raw_motor3 r))) (Fin 2)"

definition v_boat_power :: "pylib \<Rightarrow> raw_record \<Rightarrow> fnum" where
  "v_boat_power lib r = fdiv (fadd (rate lib (raw_boat2 r)) (rate lib (raw_boat3 r))) (Fin 2)"

definition v_power_diff :: "pylib \<Rightarrow> raw_record \<Rightarrow> fnum" where
  "v_power_diff lib r = fsub (v_motor_power lib r) (v_boat_power lib r)"

definition v_power_total :: "pylib \<Rightarrow> raw_record \<Rightarrow> fnum" where
  "v_power_total lib r = fdiv (fadd (v_motor_power lib r) (v_boat_power lib r)) (Fin 2)"

definition course_score :: "(int \<times> rat) list" where
  "course_score = [(1, 1), (2, 4 / 5), (3, 3 / 5), (4, 2 / 5), (5, 1 / 5), (6, 0)]"

definition v_inside_score :: "raw_record \<Rightarrow> fnum" where
  "v_inside_score r =
     (case map_of course_score (raw_course r) of Some x \<Rightarrow> Fin x | None \<Rightarrow> Fin (1 / 2))"

definition v_course_inv :: "raw_record \<Rightarrow> fnum" where
  "v_course_inv r =
     fillna0 (fdiv (Fin 1) (if v_course r = Fin 0 then NaN else v_course r))"

definition v_overall :: "pylib \<Rightarrow> raw_record \<Rightarrow> fnum" where
  "v_overall lib r = fdiv (fadd (v_win_total lib r) (v_power_total lib r)) (Fin 2)"

definition v_course_fit :: "pylib \<Rightarrow> raw_record \<Rightarrow> fnum" where
  "v_course_fit lib r = fmul (v_inside_score r) (rate lib (raw_win_loc r))"

definition v_class_power :: "pylib \<Rightarrow> raw_record \<Rightarrow> fnum" where
  "v_class_power lib r = fmul (v_class_rank r) (v_power_total lib r)"

definition v_st_win :: "pylib \<Rightarrow> raw_record \<Rightarrow> fnum" where
  "v_st_win lib r = fmul (v_st_stability lib r) (rate lib (raw_win_nat r))"

definition v_weight_st :: "pylib \<Rightarrow> raw_record \<Rightarrow> fnum" where
  "v_weight_st lib r = fdiv (v_weight lib r) (fadd (v_mean_st lib r) (Fin (1 / 100)))"

subsection \<open>The statistics of a race\<close>

text \<open>
  \<open>race_id\<close> is the key of the race, the day, an underscore and the round. The rows are
  grouped by it, and each row receives the mean, maximum and minimum of its group.
\<close>

definition race_id :: "raw_record \<Rightarrow> ustr" where
  "race_id r = raw_day r @ [95] @ str_int (raw_round r)"

definition race_group :: "raw_record list \<Rightarrow> raw_record \<Rightarrow> raw_record list" where
  "race_group raw r = filter (\<lambda>r'. race_id r' = race_id r) raw"

definition stat_mean :: "(raw_record \<Rightarrow> fnum) \<Rightarrow> raw_record list \<Rightarrow> raw_record \<Rightarrow> fnum" where
  "stat_mean f raw r = agg_mean (map f (race_group raw r))"

definition stat_max :: "(raw_record \<Rightarrow> fnum) \<Rightarrow> raw_record list \<Rightarrow> raw_record \<Rightarrow> fnum" where
  "stat_max f raw r = agg_max (map f (race_group raw r))"

definition stat_min :: "(raw_record \<Rightarrow> fnum) \<Rightarrow> raw_record list \<Rightarrow> raw_record \<Rightarrow> fnum" where
  "stat_min f raw r = agg_min (map f (race_group raw r))"

definition race_stats ::
  "ustr \<Rightarrow> (raw_record \<Rightarrow> fnum) \<Rightarrow> raw_record list \<Rightarrow> raw_record \<Rightarrow> (ustr \<times> fnum) list" where
  "race_stats col f raw r =
     [(stat_name col ''mean'', stat_mean f raw r),
      (stat_name col ''max'', stat_max f raw r),
      (stat_name col ''min'', stat_min f raw r)]"

text \<open>
  The mean of the opponents, for a race of six: six times the mean of the race, less the
  value of the row, over five; and the two columns of an opponent feature.
\<close>

definition opp_mean :: "(raw_record \<Rightarrow> fnum) \<Rightarrow> raw_record list \<Rightarrow> raw_record \<Rightarrow> fnum" where
  "opp_mean f raw r = fdiv (fsub (fmul (stat_mean f raw r) (Fin 6)) (f r)) (Fin 5)"

definition opp_features ::
  "ustr \<Rightarrow> (raw_record \<Rightarrow> fnum) \<Rightarrow> raw_record list \<Rightarrow> raw_record \<Rightarrow> (ustr \<times> fnum) list" where
  "opp_features col f raw r =
     [(opp_mean_name col, opp_mean f raw r),
      (diff_name col, fsub (f r) (opp_mean f raw r))]"

subsection \<open>Exhibition and tilt\<close>

definition v_start_ex :: "pylib \<Rightarrow> raw_record \<Rightarrow> fnum" where
  "v_start_ex lib r = fillna0 (v_start_ex0 lib r)"

definition v_tilt :: "pylib \<Rightarrow> raw_record \<Rightarrow> fnum" where
  "v_tilt lib r = fillna0 (v_tilt0 lib r)"

text \<open>
  \<open>rank(method='min')\<close> in the race: one more than the number of rows of the race with a
  smaller value. The mean by lane groups the rows of the whole table by their lane.
\<close>

definition v_ex_rank :: "pylib \<Rightarrow> raw_record list \<Rightarrow> raw_record \<Rightarrow> fnum" where
  "v_ex_rank lib raw r =
     Fin (1 + of_nat (length (filter (\<lambda>r'. flt (v_start_ex lib r') (v_start_ex lib r))
                               (race_group raw r))))"

definition v_ex_course_mean :: "pylib \<Rightarrow> raw_record list \<Rightarrow> raw_record \<Rightarrow> fnum" where
  "v_ex_course_mean lib raw r =
     agg_mean (map (v_start_ex lib) (filter (\<lambda>r'. v_course r' = v_course r) raw))"

definition tilt_map :: "(rat \<times> rat) list" where
  "tilt_map = [(- (1 / 2), - 1), (0, 0), (1 / 2, 1)]"

definition v_tilt_cat :: "pylib \<Rightarrow> raw_record \<Rightarrow> fnum" where
  "v_tilt_cat lib r =
     (case v_tilt lib r of
        Fin q \<Rightarrow> (case map_of tilt_map q of Some k \<Rightarrow> Fin k | None \<Rightarrow> Fin 0)
      | _ \<Rightarrow> Fin 0)"

subsection \<open>The table\<close>

text \<open>
  A cell before the final cleaning: a number, or the text of a column of texts (the class
  and the day).
\<close>

datatype cell0 = Num fnum | Str ustr

text \<open>
  The columns of one row before the final cleaning, in the order of the table: the raw
  columns without the name and the count of late starts, the derived features, the
  statistics of the race, the opponent features, the exhibition and the tilt features.
  The age and the count of false starts are the results of the two conversions that can
  raise.
\<close>

definition feature_row ::
  "pylib \<Rightarrow> raw_record list \<Rightarrow> raw_record \<Rightarrow> fnum \<Rightarrow> int \<Rightarrow> (ustr \<times> cell0) list" where
  "feature_row lib raw r age f_count =
     [(c_age, Num age),
      (c_weight, Num (v_weight lib r)),
      (c_class, Str (raw_class r)),
      (c_f_count, Num (Fin (of_int f_count))),
      (c_mean_st, Num (v_mean_st lib r)),
      (c_win_nat, Num (rate lib (raw_win_nat r))),
      (c_win2_nat, Num (rate lib (raw_win2_nat r))),
      (c_win3_nat, Num (rate lib (raw_win3_nat r))),
      (c_win_loc, Num (rate lib (raw_win_loc r))),
      (c_win2_loc, Num (rate lib (raw_win2_loc r))),
      (c_win3_loc, Num (rate lib (raw_win3_loc r))),
      (c_motor_num, Num (v_motor_num lib r)),
      (c_motor2, Num (rate lib (raw_motor2 r))),
      (c_motor3, Num (rate lib (raw_motor3 r))),
      (c_boat_num, Num (v_boat_num lib r)),
      (c_boat2, Num (rate lib (raw_boat2 r))),
      (c_boat3, Num (rate lib (raw_boat3 r))),
      (col_course, Num (v_course r)),
      (col_day, Str (raw_day r)),
      (col_round, Num (Fin (of_int (raw_round r)))),
      (c_start_ex, Num (v_start_ex lib r)),
      (c_tilt, Num (v_tilt lib r)),
      (c_class_rank, Num (v_class_rank r)),
      (c_st_stability, Num (v_st_stability lib r)),
      (c_win_diff, Num (v_win_diff lib r)),
      (c_win2_diff, Num (v_win2_diff lib r)),
      (c_win3_diff, Num (v_win3_diff lib r)),
      (c_win_total, Num (v_win_total lib r)),
      (c_place_stability, Num (v_place_stability lib r)),
      (c_motor_power, Num (v_motor_power lib r)),
      (c_boat_power, Num (v_boat_power lib r)),
      (c_power_diff, Num (v_power_diff lib r)),
      (c_power_total, Num (v_power_total lib r)),
      (c_inside_score, Num (v_inside_score r)),
      (c_course_inv, Num (v_course_inv r)),
      (c_overall, Num (v_overall lib r)),
      (c_course_fit, Num (v_course_fit lib r)),
      (c_class_power, Num (v_class_power lib r)),
      (c_st_win, Num (v_st_win lib r)),
      (c_weight_st, Num (v_weight_st lib r))]
     @ map (\<lambda>(n, v). (n, Num v))
        (race_stats c_win_nat (\<lambda>r. rate lib (raw_win_nat r)) raw r
         @ race_stats c_win_loc (\<lambda>r. rate lib (raw_win_loc r)) raw r
         @ race_stats c_motor_power (v_motor_power lib) raw r
         @ race_stats c_boat_power (v_boat_power lib) raw r
         @ race_stats c_overall (v_overall lib) raw r
         @ race_stats c_class_rank v_class_rank raw r
         @ race_stats c_mean_st (v_mean_st lib) raw r
         @ opp_features c_win_nat (\<lambda>r. rate lib (raw_win_nat r)) raw r
         @ opp_features c_motor_power (v_motor_power lib) raw r
         @ opp_features c_overall (v_overall lib) raw r
         @ [(c_opp_class_rank, opp_mean v_class_rank raw r),
            (c_class_adv, of_flag (flt (opp_mean v_class_rank raw r) (v_class_rank r))),
            (c_ex_mean_diff, fsub (v_start_ex lib r) (stat_mean (v_start_ex lib) raw r)),
            (c_ex_rank, v_ex_rank lib raw r),
            (c_ex_min_diff, fsub (v_start_ex lib r) (stat_min (v_start_ex lib) raw r)),
            (c_ex_course_diff, fsub (v_start_ex lib r) (v_ex_course_mean lib raw r)),
            (c_course_ex, fmul (v_course r) (v_start_ex lib r)),
            (c_tilt_plus, of_flag (flt (Fin 0) (v_tilt lib r))),
            (c_tilt_cat, v_tilt_cat lib r),
            (c_ex_tilt, fmul (v_start_ex lib r) (v_tilt lib r)),
            (c_tilt_course, fmul (v_tilt lib r) (v_course r))])"

text \<open>
  The final cleaning of a cell: \<open>fillna(0)\<close>, which leaves a text as it is, then the
  conversion of the columns of texts to numbers, with \<open>NaN\<close> filled by 0 again.
\<close>

definition final_cell :: "pylib \<Rightarrow> cell0 \<Rightarrow> fnum" where
  "final_cell lib c =
     (case c of
        Num x \<Rightarrow> fillna0 x
      | Str s \<Rightarrow> fillna0 (to_numeric lib s))"

definition final_row :: "pylib \<Rightarrow> (ustr \<times> cell0) list \<Rightarrow> (ustr \<times> fnum) list" where
  "final_row lib cs = map (\<lambda>(n, c). (n, final_cell lib c)) cs"

text \<open>
  The table of the final rows: the columns are the names of a row, which are the same for
  every row, and the index labels are the positions, which the merge of the statistics has
  reset.
\<close>

definition table_row :: "nat \<Rightarrow> (ustr \<times> fnum) list \<Rightarrow> row" where
  "table_row i cs = \<lparr>idx = i, cell = (\<lambda>n. case map_of cs n of Some v \<Rightarrow> v | None \<Rightarrow> NaN)\<rparr>"

definition blank_record :: raw_record where
  "blank_record =
     \<lparr>raw_name = [], raw_age = [], raw_weight = [], raw_class = [], raw_f_count = [],
      raw_l_count = [], raw_mean_st = [], raw_win_nat = [], raw_win2_nat = [], raw_win3_nat = [],
      raw_win_loc = [], raw_win2_loc = [], raw_win3_loc = [], raw_motor_num = [], raw_motor2 = [],
      raw_motor3 = [], raw_boat_num = [], raw_boat2 = [], raw_boat3 = [], raw_course = 0,
      raw_day = [], raw_round = 0, raw_start_ex = [], raw_tilt = []\<rparr>"

definition feature_columns :: "ustr list" where
  "feature_columns =
     map fst (feature_row \<lparr>to_numeric = (\<lambda>s. NaN), to_float = (\<lambda>s. None)\<rparr> [] blank_record NaN 0)"

text \<open>
  \<open>prepare_df\<close>. The conversion of the ages is the first that can raise, that of the
  counts of false starts the second; each works on its whole column.
\<close>

definition prepare_df :: "pylib \<Rightarrow> raw_record list \<Rightarrow> exn + frame" where
  "prepare_df lib raw =
     (case those (map (age_float lib) raw) of
        None \<Rightarrow> Inl ValueError
      | Some ages \<Rightarrow>
          (case those (map f_count_int raw) of
             None \<Rightarrow> Inl OverflowError
           | Some f_counts \<Rightarrow>
               Inr \<lparr>columns = feature_columns,
                    rows = map (\<lambda>(i, r, age, f_count).
                                  table_row i (final_row lib (feature_row lib raw r age f_count)))
                             (zip [0..<length raw] (zip raw (zip ages f_counts)))\<rparr>))"

subsection \<open>Example batch\<close>

text \<open>
  A reader of plain decimals, \<open>-a\<close> or \<open>-a.b\<close> with the sign or without, for the two
  conversions of the library: on such texts both give the number, and the texts of the
  examples that are no numbers (the empty text, a letter, a lone dash) are no numbers for
  the library either.
\<close>

definition parse_decimal :: "ustr \<Rightarrow> rat option" where
  "parse_decimal s =
     (let neg = (s \<noteq> [] \<and> hd s = 45);
          t = (if neg then tl s else s);
          a = takeWhile is_digit t;
          r = dropWhile is_digit t;
          sg = (if neg then - 1 else 1)
      in if a = [] then None
         else if r = [] then Some (sg * of_nat (digits_val a))
         else if hd r = 46 \<and> is_digits (tl r) then Some (sg * float_of_group (a, tl r))
         else None)"

definition example_lib :: pylib where
  "example_lib =
     \<lparr>to_numeric = (\<lambda>s. case parse_decimal s of Some q \<Rightarrow> Fin q | None \<Rightarrow> NaN),
      to_float = (\<lambda>s. map_option Fin (parse_decimal s))\<rparr>"

text \<open>
  A race of six: the row of lane \<open>i + 1\<close>, with texts as the page gives them, and the
  same race with an age that is no number in the row of lane 3.
\<close>

definition example_raw :: "nat \<Rightarrow> raw_record" where
  "example_raw i =
     \<lparr>raw_name = ascii ''racer'',
      raw_age = ascii ''35'' @ [27507],
      raw_weight = ascii ''52.0'',
      raw_class = (if i < 2 then ascii ''A1'' else ascii ''B1''),
      raw_f_count = ascii ''F0'',
      raw_l_count = ascii ''L0'',
      raw_mean_st = (if i = 5 then ascii ''-'' else ascii ''0.15''),
      raw_win_nat = str_nat (i + 3) @ ascii ''.50'',
      raw_win2_nat = ascii ''40.00'',
      raw_win3_nat = ascii ''60.00'',
      raw_win_loc = ascii ''5.00'',
      raw_win2_loc = ascii ''35.00'',
      raw_win3_loc = ascii ''55.00'',
      raw_motor_num = ascii ''12'',
      raw_motor2 = str_nat (30 + i) @ ascii ''.00'',
      raw_motor3 = ascii ''50.00'',
      raw_boat_num = ascii ''34'',
      raw_boat2 = ascii ''33.00'',
      raw_boat3 = ascii ''47.00'',
      raw_course = int i + 1,
      raw_day = ascii ''05'',
      raw_round = 3,
      raw_start_ex = ascii ''0.1'' @ str_nat i,
      raw_tilt = ascii ''-0.5''\<rparr>"

definition example_batch :: "raw_record list" where
  "example_batch = map example_raw [0, 1, 2, 3, 4, 5]"

definition example_bad_age :: "raw_record list" where
  "example_bad_age = example_batch[2 := (example_raw 2)\<lparr>raw_age := []\<rparr>]"

subsection \<open>Notions used in the statements on the features\<close>




section \<open>Threshold extraction\<close>











lemmas threshold_defs = extract_threshold_from_filename_def basename_def match_at_def is_digit_def
  float_of_group_def digits_val_def ascii_def edogawa6_name_def Let_def



section \<open>Tables and alignment\<close>

lemma map_zip_replicate:
  "map f (zip xs (replicate (length xs) c)) = map (\<lambda>x. f (x, c)) xs"
  by (induction xs) auto

lemma rows_set_column_nan:
  "rows (set_column_nan n df) = map (\<lambda>r. r\<lparr>cell := (cell r)(n := NaN)\<rparr>) (rows df)"
  by (simp add: set_column_nan_def set_column_def map_zip_replicate)

lemma columns_set_column_nan:
  "columns (set_column_nan n df) = (if n \<in> set (columns df) then columns df else columns df @ [n])"
  by (simp add: set_column_nan_def set_column_def)

lemma rows_foldl_nan:
  "rows (foldl (\<lambda>df col. set_column_nan col df) df ms) = map (nan_under ms) (rows df)"
proof (induction ms arbitrary: df)
  case Nil
  show ?case by (simp add: nan_under_def)
next
  case (Cons m ms)
  have "nan_under ms (r\<lparr>cell := (cell r)(m := NaN)\<rparr>) = nan_under (m # ms) r" for r
    by (auto simp: nan_under_def fun_eq_iff)
  then show ?case by (simp add: Cons.IH rows_set_column_nan)
qed

lemma set_columns_foldl_nan:
  "set (columns (foldl (\<lambda>df col. set_column_nan col df) df ms)) = set (columns df) \<union> set ms"
  by (induction ms arbitrary: df) (auto simp: columns_set_column_nan)

lemma columns_foldl_nan:
  "distinct ms \<Longrightarrow> set ms \<inter> set (columns df) = {} \<Longrightarrow>
   columns (foldl (\<lambda>df col. set_column_nan col df) df ms) = columns df @ ms"
  by (induction ms arbitrary: df) (auto simp: columns_set_column_nan)

lemma rows_align: "rows (align required df) = map (nan_under (missing_columns required df)) (rows df)"
  by (simp add: align_def Let_def drop_columns_def rows_foldl_nan)

lemma set_columns_align: "set (columns (align required df)) = set required"
  by (auto simp: align_def Let_def drop_columns_def set_columns_foldl_nan
      missing_columns_def extra_columns_def filter_empty_conv)

lemma columns_align:
  assumes "distinct required"
  shows "columns (align required df) =
     filter (\<lambda>c. c \<in> set required) (columns df) @ missing_columns required df"
proof -
  let ?ms = "missing_columns required df"
  have d: "distinct ?ms" "set ?ms \<inter> set (columns df) = {}"
    using assms by (auto simp: missing_columns_def)
  have c: "columns (foldl (\<lambda>df col. set_column_nan col df) df ?ms) = columns df @ ?ms"
    by (rule columns_foldl_nan [OF d])
  show ?thesis
  proof (cases "extra_columns required df = []")
    case True
    then have "filter (\<lambda>c. c \<in> set required) (columns df) = columns df"
      by (auto simp: extra_columns_def filter_empty_conv filter_id_conv)
    with True c show ?thesis by (simp add: align_def Let_def)
  next
    case False
    have 1: "filter (\<lambda>c. c \<notin> set (extra_columns required df)) (columns df)
        = filter (\<lambda>c. c \<in> set required) (columns df)"
      by (rule filter_cong) (auto simp: extra_columns_def)
    have "\<forall>c \<in> set ?ms. c \<notin> set (extra_columns required df)"
      by (auto simp: extra_columns_def missing_columns_def)
    then have 2: "filter (\<lambda>c. c \<notin> set (extra_columns required df)) ?ms = ?ms"
      by (simp add: filter_id_conv)
    from False c 1 2 show ?thesis by (simp add: align_def Let_def drop_columns_def)
  qed
qed

lemma idx_nan_under [simp]: "idx (nan_under ms r) = idx r"
  by (simp add: nan_under_def)

lemma cell_nan_under: "cell (nan_under ms r) n = (if n \<in> set ms then NaN else cell r n)"
  by (simp add: nan_under_def)

lemma length_rows_set_column:
  "length vs = length (rows df) \<Longrightarrow> length (rows (set_column n vs df)) = length (rows df)"
  by (simp add: set_column_def)

lemma nth_rows_set_column:
  "length vs = length (rows df) \<Longrightarrow> i < length (rows df) \<Longrightarrow>
   rows (set_column n vs df) ! i = (rows df ! i)\<lparr>cell := (cell (rows df ! i))(n := vs ! i)\<rparr>"
  by (simp add: set_column_def)


lemma columns_set_column:
  "columns (set_column n vs df) = (if n \<in> set (columns df) then columns df else columns df @ [n])"
  by (simp add: set_column_def)

lemma length_frame_values [simp]: "length (frame_values df) = length (rows df)"
  by (simp add: frame_values_def)

lemma length_binarize [simp]: "length (binarize t ps) = length ps"
  by (simp add: binarize_def)

lemmas venue_defs = kiryu_def biwako_def tsu_def edogawa_def tokuyama_def shimonoseki_def fukuoka_def

lemma registered_venues:
  "map_of MODEL_PATHS v \<noteq> None \<longleftrightarrow>
     v \<in> {kiryu, biwako, tsu, edogawa, tokuyama, shimonoseki, fukuoka}"
  by (auto simp: MODEL_PATHS_def)

lemma registered_nonempty: "map_of MODEL_PATHS v = Some p \<Longrightarrow> v \<noteq> []"
  using registered_venues [of v] by (auto simp: venue_defs)

lemma score_course_1_ok:
  assumes "\<not> empty_frame (test_df s)" "load_booster st p = Inr b"
  shows "score_course_1 st p s =
     Inr (s\<lparr>signals := signals s @ snd (extract_threshold_from_filename p),
            test_df := attach col_pred15_score col_pred15 b (fst (extract_threshold_from_filename p)) (test_df s),
            calls := calls s @ [call_of p (test_df s)],
            model_info_list := model_info_list s @ [(basename p, fst (extract_threshold_from_filename p))]\<rparr>)"
  using assms by (simp add: score_course_1_def attach_def call_of_def Let_def split: prod.splits)

lemma score_course_1_raise:
  assumes "\<not> empty_frame (test_df s)" "load_booster st p = Inl e"
  shows "score_course_1 st p s =
     Inl (e, s\<lparr>signals := signals s @ snd (extract_threshold_from_filename p)\<rparr>)"
  using assms by (simp add: score_course_1_def Let_def split: prod.splits)

lemma score_course_6_ok:
  assumes "\<not> empty_frame (test_df6 s)" "load_booster st p = Inr b"
  shows "score_course_6 st p s =
     Inr (s\<lparr>signals := signals s @ snd (extract_threshold_from_filename p),
            test_df6 := attach col_pred6_score col_pred6 b (fst (extract_threshold_from_filename p)) (test_df6 s),
            calls := calls s @ [call_of p (test_df6 s)],
            model_info_list := model_info_list s @ [(basename p, fst (extract_threshold_from_filename p))]\<rparr>)"
  using assms by (simp add: score_course_6_def attach_def call_of_def Let_def split: prod.splits)

lemma score_course_6_raise:
  assumes "\<not> empty_frame (test_df6 s)" "load_booster st p = Inl e"
  shows "score_course_6 st p s =
     Inl (e, s\<lparr>signals := signals s @ snd (extract_threshold_from_filename p)\<rparr>)"
  using assms by (simp add: score_course_6_def Let_def split: prod.splits)

lemma score_course_6_skip:
  "empty_frame (test_df6 s) \<Longrightarrow> score_course_6 st p s = Inr s"
  by (simp add: score_course_6_def)


lemma length_rows_attach [simp]: "length (rows (attach sc fc b t df)) = length (rows df)"
  by (simp add: attach_def length_rows_set_column)


lemma empty_attach [simp]: "empty_frame (attach sc fc b t df) \<longleftrightarrow> rows df = []"
proof -
  have "columns (attach sc fc b t df) \<noteq> []"
    by (auto simp: attach_def columns_set_column)
  moreover have "rows (attach sc fc b t df) = [] \<longleftrightarrow> rows df = []"
    using length_rows_attach [of sc fc b t df] by (metis length_0_conv)
  ultimately show ?thesis by (simp add: empty_frame_def)
qed

lemma run_inference_unfold:
  assumes "col_course \<in> set (columns (align (required_columns st (venue_name_of sel) prepared) prepared))"
  shows "run_inference st sel prepared =
    (let required = required_columns st (venue_name_of sel) prepared;
         df = align required prepared;
         s1 = load_and_score st (venue_name_of sel)
                \<lparr>test_df = df, test_df6 = lane6 df, signals = missing_signal required prepared,
                 calls = [], model_info_list = []\<rparr>
     in Inr (s1\<lparr>test_df := reassemble (test_df s1) (test_df6 s1)\<rparr>))"
  using assms
  by (simp add: run_inference_def Let_def lane6_def reassemble_def missing_signal_def)

lemma required_columns_loaded:
  assumes "map_of MODEL_PATHS v = Some (p1, p6)" "path_exists st p1" "load_booster st p1 = Inr b1"
  shows "required_columns st (Some v) prepared = feature_name b1"
  using assms by (simp add: required_columns_def)

lemma required_columns_failed:
  assumes "map_of MODEL_PATHS v = Some (p1, p6)" "load_booster st p1 = Inl e"
  shows "required_columns st (Some v) prepared = columns prepared"
  using assms by (simp add: required_columns_def)


lemma load_and_score_fail_1:
  assumes "map_of MODEL_PATHS v = Some (p1, p6)"
    and "load_booster st p1 = Inl e" "\<not> empty_frame (test_df s)"
  shows "load_and_score st (Some v) s =
     s\<lparr>signals := signals s @ snd (extract_threshold_from_filename p1) @ [error_signal e]\<rparr>"
  using assms
  by (simp add: load_and_score_def score_course_1_raise handler_def error_signal_def)

lemma load_and_score_fail_6:
  assumes "map_of MODEL_PATHS v = Some (p1, p6)"
    and "load_booster st p1 = Inr b1" "load_booster st p6 = Inl e"
    and "\<not> empty_frame (test_df s)" "\<not> empty_frame (test_df6 s)"
  shows "load_and_score st (Some v) s =
     s\<lparr>signals := signals s @ snd (extract_threshold_from_filename p1)
                   @ snd (extract_threshold_from_filename p6) @ [error_signal e],
       test_df := attach col_pred15_score col_pred15 b1 (fst (extract_threshold_from_filename p1)) (test_df s),
       calls := calls s @ [call_of p1 (test_df s)],
       model_info_list := model_info_list s @
          [(basename p1, fst (extract_threshold_from_filename p1))]\<rparr>"
  using assms
  by (simp add: load_and_score_def score_course_1_ok score_course_6_raise handler_def error_signal_def)

lemma load_and_score_unregistered:
  assumes "map_of MODEL_PATHS v = None"
  shows "load_and_score st (Some v) s = s\<lparr>signals := signals s @ [Warn_venue_not_registered v]\<rparr>"
  using assms by (simp add: load_and_score_def)

lemma venue_name_of_Some: "v \<noteq> [] \<Longrightarrow> venue_name_of (Some v) = Some v"
  by (simp add: venue_name_of_def)

lemma pred_cols_distinct:
  "distinct [col_pred15_score, col_pred15, col_pred6_score, col_pred6]"
  by (simp add: col_pred15_score_def col_pred15_def col_pred6_score_def col_pred6_def)

lemma cell_attach:
  assumes "i < length (rows df)"
  shows "cell (rows (attach sc fc b t df) ! i) n =
     (if n = fc then Fin (of_int (if fgt (predict b (map (cell (rows df ! i)) (columns df))) t then 1 else 0))
      else if n = sc then predict b (map (cell (rows df ! i)) (columns df))
      else cell (rows df ! i) n)"
  using assms
  by (simp add: attach_def nth_rows_set_column length_rows_set_column binarize_def frame_values_def)


lemma idx_reindex [simp]: "idx (reindex d r) = idx r"
  by (simp add: reindex_def)


section \<open>Lane routing\<close>

lemma edogawa_paths: "map_of MODEL_PATHS edogawa = Some (edogawa_1, edogawa_6)"
  by (simp add: MODEL_PATHS_def venue_defs edogawa_1_def edogawa_6_def)

lemma edogawa_paths_distinct: "edogawa_1 \<noteq> edogawa_6"
  by (simp add: edogawa_1_def edogawa_6_def model_file_def ascii_def model_dir_def edogawa_def)

lemma example_cols:
  "col_course \<noteq> col_day" "col_course \<noteq> col_round" "col_day \<noteq> col_round"
  "col_course \<noteq> ascii ''extra''" "col_day \<noteq> ascii ''extra''" "col_round \<noteq> ascii ''extra''"
  "col_course \<noteq> ascii ''more''" "col_day \<noteq> ascii ''more''" "col_round \<noteq> ascii ''more''"
  "ascii ''more'' \<noteq> ascii ''extra''"
  by (simp_all add: col_course_def col_day_def col_round_def ascii_def)





lemmas example_defs = example_df_def example_row_def example_storage_def example_booster_def


lemma example_load:
  "load_booster (example_storage True h6) edogawa_1 = Inr (example_booster (1 / 5))"
  "load_booster (example_storage h1 True) edogawa_6 = Inr (example_booster (1 / 6))"
  "load_booster (example_storage False h6) edogawa_1 = Inl FileNotFoundError"
  "load_booster (example_storage h1 False) edogawa_6 = Inl FileNotFoundError"
  "path_exists (example_storage True h6) edogawa_1"
  using edogawa_paths_distinct by (auto simp: example_storage_def)

lemma example_features:
  "col_course \<in> set (feature_name (example_booster k))"
  "col_day \<in> set (feature_name (example_booster k))"
  "col_round \<in> set (feature_name (example_booster k))"
  "col_course \<in> set (columns example_df)"
  by (simp_all add: example_defs)




section \<open>Missing artifacts and unregistered venues\<close>

lemma run_inference_fail_1:
  assumes reg: "map_of MODEL_PATHS v = Some (p1, p6)"
    and l1: "load_booster st p1 = Inl e"
    and cc: "col_course \<in> set (columns prepared)"
    and ne: "rows prepared \<noteq> []"
  shows "run_inference st (Some v) prepared =
     Inr \<lparr>test_df = reassemble (align (columns prepared) prepared)
                      (lane6 (align (columns prepared) prepared)),
          test_df6 = lane6 (align (columns prepared) prepared),
          signals = missing_signal (columns prepared) prepared
            @ snd (extract_threshold_from_filename p1) @ [error_signal e],
          calls = [], model_info_list = []\<rparr>"
proof -
  let ?req = "columns prepared"
  let ?df = "align ?req prepared"
  have vn: "venue_name_of (Some v) = Some v"
    using registered_nonempty [OF reg] by (rule venue_name_of_Some)
  have req: "required_columns st (Some v) prepared = ?req"
    by (rule required_columns_failed [OF reg l1])
  have cols: "set (columns ?df) = set ?req" by (rule set_columns_align)
  have ne': "\<not> empty_frame ?df"
    using cols cc ne by (auto simp: empty_frame_def rows_align)
  let ?s0 = "\<lparr>test_df = ?df, test_df6 = lane6 ?df, signals = missing_signal ?req prepared,
               calls = [], model_info_list = []\<rparr>"
  have "col_course \<in> set (columns (align (required_columns st (venue_name_of (Some v)) prepared) prepared))"
    using cols cc by (simp add: vn req)
  from run_inference_unfold [OF this]
  have "run_inference st (Some v) prepared =
      Inr ((load_and_score st (Some v) ?s0)\<lparr>test_df :=
         reassemble (test_df (load_and_score st (Some v) ?s0)) (test_df6 (load_and_score st (Some v) ?s0))\<rparr>)"
    by (simp add: vn req Let_def)
  then show ?thesis
    using load_and_score_fail_1 [OF reg l1, of ?s0] ne' by simp
qed

lemma run_inference_fail_6:
  assumes reg: "map_of MODEL_PATHS v = Some (p1, p6)"
    and ex: "path_exists st p1"
    and l1: "load_booster st p1 = Inr b1" and l6: "load_booster st p6 = Inl e"
    and fn: "col_course \<in> set (feature_name b1)"
    and ne: "rows prepared \<noteq> []"
    and ne6: "rows (lane6 (align (feature_name b1) prepared)) \<noteq> []"
  shows "run_inference st (Some v) prepared =
     Inr \<lparr>test_df =
            reassemble
              (attach col_pred15_score col_pred15 b1 (fst (extract_threshold_from_filename p1))
                 (align (feature_name b1) prepared))
              (lane6 (align (feature_name b1) prepared)),
          test_df6 = lane6 (align (feature_name b1) prepared),
          signals = missing_signal (feature_name b1) prepared
            @ snd (extract_threshold_from_filename p1)
            @ snd (extract_threshold_from_filename p6) @ [error_signal e],
          calls = [call_of p1 (align (feature_name b1) prepared)],
          model_info_list = [(basename p1, fst (extract_threshold_from_filename p1))]\<rparr>"
proof -
  let ?req = "feature_name b1"
  let ?df = "align ?req prepared"
  have vn: "venue_name_of (Some v) = Some v"
    using registered_nonempty [OF reg] by (rule venue_name_of_Some)
  have req: "required_columns st (Some v) prepared = ?req"
    by (rule required_columns_loaded [OF reg ex l1])
  have cols: "set (columns ?df) = set ?req" by (rule set_columns_align)
  have ne': "\<not> empty_frame ?df"
    using cols fn ne by (auto simp: empty_frame_def rows_align)
  have ne6': "\<not> empty_frame (lane6 ?df)"
    using cols fn ne6 by (auto simp: empty_frame_def lane6_def)
  let ?s0 = "\<lparr>test_df = ?df, test_df6 = lane6 ?df, signals = missing_signal ?req prepared,
               calls = [], model_info_list = []\<rparr>"
  have "col_course \<in> set (columns (align (required_columns st (venue_name_of (Some v)) prepared) prepared))"
    using cols fn by (simp add: vn req)
  from run_inference_unfold [OF this]
  have "run_inference st (Some v) prepared =
      Inr ((load_and_score st (Some v) ?s0)\<lparr>test_df :=
         reassemble (test_df (load_and_score st (Some v) ?s0)) (test_df6 (load_and_score st (Some v) ?s0))\<rparr>)"
    by (simp add: vn req Let_def)
  then show ?thesis
    using load_and_score_fail_6 [OF reg l1 l6, of ?s0] ne' ne6' by simp
qed

lemma run_inference_unregistered:
  assumes v: "v \<noteq> []" and reg: "map_of MODEL_PATHS v = None"
    and cc: "col_course \<in> set (required_columns st (Some v) prepared)"
  shows "run_inference st (Some v) prepared =
     Inr \<lparr>test_df = reassemble (align (required_columns st (Some v) prepared) prepared)
                      (lane6 (align (required_columns st (Some v) prepared) prepared)),
          test_df6 = lane6 (align (required_columns st (Some v) prepared) prepared),
          signals = missing_signal (required_columns st (Some v) prepared) prepared
            @ [Warn_venue_not_registered v],
          calls = [], model_info_list = []\<rparr>"
proof -
  let ?req = "required_columns st (Some v) prepared"
  let ?df = "align ?req prepared"
  have vn: "venue_name_of (Some v) = Some v" using v by (rule venue_name_of_Some)
  let ?s0 = "\<lparr>test_df = ?df, test_df6 = lane6 ?df, signals = missing_signal ?req prepared,
               calls = [], model_info_list = []\<rparr>"
  have "col_course \<in> set (columns (align (required_columns st (venue_name_of (Some v)) prepared) prepared))"
    using cc by (simp add: vn set_columns_align)
  from run_inference_unfold [OF this]
  have "run_inference st (Some v) prepared =
      Inr ((load_and_score st (Some v) ?s0)\<lparr>test_df :=
         reassemble (test_df (load_and_score st (Some v) ?s0)) (test_df6 (load_and_score st (Some v) ?s0))\<rparr>)"
    by (simp add: vn Let_def)
  then show ?thesis
    by (simp add: load_and_score_unregistered [OF reg])
qed

lemma lane6_nonempty:
  assumes "col_course \<in> set (columns prepared)"
    and "\<exists>r \<in> set (rows prepared). cell r col_course = Fin 6"
  shows "rows (lane6 (align required prepared)) \<noteq> []"
proof -
  from assms(2) obtain r where r: "r \<in> set (rows prepared)" "cell r col_course = Fin 6" by blast
  let ?ms = "missing_columns required prepared"
  have "col_course \<notin> set ?ms" using assms(1) by (simp add: missing_columns_def)
  then have "cell (nan_under ?ms r) col_course = Fin 6" using r(2) by (simp add: cell_nan_under)
  moreover have "nan_under ?ms r \<in> set (rows (align required prepared))"
    using r(1) by (simp add: rows_align)
  ultimately show ?thesis by (auto simp: lane6_def filter_empty_conv)
qed

text \<open>
  Claim C2, as the script has it. The two models are loaded in one \<open>try\<close> statement, the
  model of lanes 1 to 5 first. When that model does not load, the error is shown and
  neither lane group is scored; when it loads and the model of lane 6 does not, the error
  is shown, lane 6 is not scored and the six rows scored by the first model stay scored.
\<close>

theorem missing_artifact:
  assumes reg: "map_of MODEL_PATHS v = Some (p1, p6)"
    and cc: "col_course \<in> set (columns prepared)"
    and l6: "\<exists>r \<in> set (rows prepared). cell r col_course = Fin 6"
  shows "(load_booster st p1 = Inl e \<longrightarrow>
            report (run_inference st (Some v) prepared)
              = Inr (snd (extract_threshold_from_filename p1) @ [error_signal e], []))
       \<and> (path_exists st p1 \<and> load_booster st p1 = Inr b1 \<and> col_course \<in> set (feature_name b1)
            \<and> load_booster st p6 = Inl e \<longrightarrow>
            report (run_inference st (Some v) prepared)
              = Inr (missing_signal (feature_name b1) prepared
                       @ snd (extract_threshold_from_filename p1)
                       @ snd (extract_threshold_from_filename p6) @ [error_signal e],
                     [(p1, map idx (rows prepared))]))"
proof (intro conjI impI)
  from l6 have ne: "rows prepared \<noteq> []" by auto
  {
    assume l1: "load_booster st p1 = Inl e"
    have "missing_signal (columns prepared) prepared = []"
      by (simp add: missing_signal_def missing_columns_def)
    then show "report (run_inference st (Some v) prepared)
              = Inr (snd (extract_threshold_from_filename p1) @ [error_signal e], [])"
      by (simp add: run_inference_fail_1 [OF reg l1 cc ne] report_def)
  }
  {
    assume a: "path_exists st p1 \<and> load_booster st p1 = Inr b1
        \<and> col_course \<in> set (feature_name b1) \<and> load_booster st p6 = Inl e"
    then have ex: "path_exists st p1" and l1: "load_booster st p1 = Inr b1"
      and fn: "col_course \<in> set (feature_name b1)" and f6: "load_booster st p6 = Inl e"
      by simp_all
    have ne6: "rows (lane6 (align (feature_name b1) prepared)) \<noteq> []"
      by (rule lane6_nonempty [OF cc l6])
    show "report (run_inference st (Some v) prepared)
              = Inr (missing_signal (feature_name b1) prepared
                       @ snd (extract_threshold_from_filename p1)
                       @ snd (extract_threshold_from_filename p6) @ [error_signal e],
                     [(p1, map idx (rows prepared))])"
      by (simp add: run_inference_fail_6 [OF reg ex l1 f6 fn ne ne6] report_def call_of_def
          rows_align comp_def)
  }
qed

lemma example_has_lane6: "\<exists>r \<in> set (rows example_df). cell r col_course = Fin 6"
  by (simp add: example_df_def example_row_def)

lemma example_thresholds:
  "extract_threshold_from_filename edogawa_1 = (41 / 50, [])"
  "extract_threshold_from_filename edogawa_6 = (19 / 20, [])"
  by (simp_all add: edogawa_1_def edogawa_6_def model_file_def model_dir_def edogawa_def
      rank_model_def threshold_defs)

lemma example_missing:
  "missing_signal (feature_name (example_booster k)) example_df = [Warn_missing_columns [ascii ''more'']]"
  using example_cols
  by (simp add: missing_signal_def missing_columns_def example_df_def example_booster_def)

theorem missing_artifact_witness:
  "report (run_inference (example_storage False True) (Some edogawa) example_df)
     = Inr ([Err_model_file_not_found], [])
   \<and> report (run_inference (example_storage True False) (Some edogawa) example_df)
     = Inr ([Warn_missing_columns [ascii ''more''], Err_model_file_not_found],
            [(edogawa_1, [0, 1, 2, 3, 4, 5])])"
proof
  show "report (run_inference (example_storage False True) (Some edogawa) example_df)
     = Inr ([Err_model_file_not_found], [])"
    using missing_artifact [OF edogawa_paths example_features(4) example_has_lane6,
        of "example_storage False True" FileNotFoundError]
      example_load(3) [of True]
    by (simp add: example_thresholds error_signal_def)
next
  show "report (run_inference (example_storage True False) (Some edogawa) example_df)
     = Inr ([Warn_missing_columns [ascii ''more''], Err_model_file_not_found],
            [(edogawa_1, [0, 1, 2, 3, 4, 5])])"
    using missing_artifact [OF edogawa_paths example_features(4) example_has_lane6,
        of "example_storage True False" FileNotFoundError "example_booster (1 / 5)"]
      example_load(1) [of False] example_load(4) [of True] example_load(5) [of False]
      example_features(1) [of "1 / 5"]
    by (simp add: example_thresholds example_missing error_signal_def)
       (simp add: example_df_def example_row_def)
qed

text \<open>
  The claim as the specification states it fails on the example: the file of the model of
  lanes 1 to 5 is missing, the model of lane 6 loads and the table has a row of lane 6, and
  the run scores nothing.
\<close>

theorem missing_artifact_counterexample:
  "load_booster (example_storage False True) edogawa_6 = Inr (example_booster (1 / 6))
   \<and> report (run_inference (example_storage False True) (Some edogawa) example_df)
       = Inr ([Err_model_file_not_found], [])"
proof -
  have ne: "rows example_df \<noteq> []" by (simp add: example_df_def)
  have "missing_signal (columns example_df) example_df = []"
    by (simp add: missing_signal_def missing_columns_def)
  then show ?thesis
    by (simp add: run_inference_fail_1 [OF edogawa_paths example_load(3) example_features(4) ne]
        report_def example_load(2) example_thresholds error_signal_def)
qed

text \<open>
  Claim C9. For a venue name that is none of the seven of \<open>MODEL_PATHS\<close>, the run shows
  the warning that no model is registered for the venue and calls \<open>predict\<close> on no model:
  the two tables are the aligned table and its rows of lane 6, with no score attached.
  The first model of \<open>MODEL_PATHS\<close> gives the required columns only.
\<close>

theorem unregistered_venue:
  assumes "v \<noteq> []"
    and "v \<notin> {kiryu, biwako, tsu, edogawa, tokuyama, shimonoseki, fukuoka}"
    and "col_course \<in> set (required_columns st (Some v) prepared)"
  shows "\<exists>out. run_inference st (Some v) prepared = Inr out
     \<and> Warn_venue_not_registered v \<in> set (signals out)
     \<and> calls out = [] \<and> model_info_list out = []
     \<and> test_df6 out = lane6 (align (required_columns st (Some v) prepared) prepared)
     \<and> test_df out = reassemble (align (required_columns st (Some v) prepared) prepared) (test_df6 out)"
proof -
  have "map_of MODEL_PATHS v = None"
    using registered_venues [of v] assms(2) by blast
  from run_inference_unregistered [OF assms(1) this assms(3)] show ?thesis by simp
qed

lemma toda_unregistered:
  "toda \<noteq> []" "toda \<notin> {kiryu, biwako, tsu, edogawa, tokuyama, shimonoseki, fukuoka}"
  by (simp_all add: toda_def venue_defs)

lemma example_required_toda:
  "required_columns (example_storage h1 h6) (Some toda) example_df = columns example_df"
proof -
  have "fst (snd (hd MODEL_PATHS)) \<noteq> edogawa_1" "fst (snd (hd MODEL_PATHS)) \<noteq> edogawa_6"
    by (simp_all add: MODEL_PATHS_def edogawa_1_def edogawa_6_def model_file_def venue_defs)
  moreover have "map_of MODEL_PATHS toda = None"
    using registered_venues [of toda] toda_unregistered(2) by blast
  ultimately show ?thesis
    by (simp add: required_columns_def example_storage_def)
qed

theorem unregistered_venue_witness:
  "\<exists>out. run_inference (example_storage True True) (Some toda) example_df = Inr out
     \<and> Warn_venue_not_registered toda \<in> set (signals out)
     \<and> calls out = [] \<and> model_info_list out = []
     \<and> test_df6 out = lane6 (align (columns example_df) example_df)
     \<and> test_df out = reassemble (align (columns example_df) example_df) (test_df6 out)"
  using unregistered_venue [OF toda_unregistered, of "example_storage True True" example_df]
    example_features(4)
  by (simp add: example_required_toda)


section \<open>Alignment, binarization and the reassembled table\<close>

lemma cell_align:
  assumes "i < length (rows df)"
  shows "cell (rows (align required df) ! i) c =
     (if c \<in> set required \<and> c \<notin> set (columns df) then NaN else cell (rows df ! i) c)"
  using assms by (simp add: rows_align cell_nan_under missing_columns_def)

text \<open>
  Claim C4, as the script has it. The aligned table has the columns of the artifact and
  no other: each column that the artifact asks for and the table lacks is inserted with
  \<open>NaN\<close> in every row, each column that the artifact does not ask for is dropped, and the
  cells of the other columns are unchanged. The columns are not put in the order of the
  artifact: the columns kept stay in the order of the table and the inserted ones follow,
  in the order of the artifact.
\<close>

theorem schema_alignment:
  assumes "distinct required"
  shows "columns (align required df) =
           filter (\<lambda>c. c \<in> set required) (columns df)
             @ filter (\<lambda>c. c \<notin> set (columns df)) required
       \<and> set (columns (align required df)) = set required
       \<and> length (rows (align required df)) = length (rows df)
       \<and> (\<forall>i < length (rows df). \<forall>c.
            cell (rows (align required df) ! i) c =
              (if c \<in> set required \<and> c \<notin> set (columns df) then NaN else cell (rows df ! i) c))"
proof (intro conjI allI impI)
  show "columns (align required df) =
           filter (\<lambda>c. c \<in> set required) (columns df)
             @ filter (\<lambda>c. c \<notin> set (columns df)) required"
    using columns_align [OF assms, of df] by (simp add: missing_columns_def)
  show "set (columns (align required df)) = set required"
    by (rule set_columns_align)
  show "length (rows (align required df)) = length (rows df)"
    by (simp add: rows_align)
next
  fix i c
  assume "i < length (rows df)"
  then show "cell (rows (align required df) ! i) c =
      (if c \<in> set required \<and> c \<notin> set (columns df) then NaN else cell (rows df ! i) c)"
    by (rule cell_align)
qed

lemma abc_distinct: "distinct [ascii ''A'', ascii ''B'', ascii ''C'']"
  by (simp add: ascii_def)

theorem schema_alignment_witness:
  "set (columns (align [ascii ''A'', ascii ''B'', ascii ''C''] example_acd))
       = {ascii ''A'', ascii ''B'', ascii ''C''}
   \<and> length (rows (align [ascii ''A'', ascii ''B'', ascii ''C''] example_acd)) = 1
   \<and> cell (rows (align [ascii ''A'', ascii ''B'', ascii ''C''] example_acd) ! 0) (ascii ''A'') = Fin 1
   \<and> cell (rows (align [ascii ''A'', ascii ''B'', ascii ''C''] example_acd) ! 0) (ascii ''B'') = NaN
   \<and> cell (rows (align [ascii ''A'', ascii ''B'', ascii ''C''] example_acd) ! 0) (ascii ''C'') = Fin 1"
proof -
  have r: "length (rows example_acd) = 1" "cell (rows example_acd ! 0) c = Fin 1"
    "columns example_acd = [ascii ''A'', ascii ''C'', ascii ''D'']" for c
    by (simp_all add: example_acd_def)
  have n: "ascii ''B'' \<noteq> ascii ''A''" "ascii ''B'' \<noteq> ascii ''C''" "ascii ''B'' \<noteq> ascii ''D''"
    by (simp_all add: ascii_def)
  note sa = schema_alignment [OF abc_distinct, of example_acd]
  let ?al = "align [ascii ''A'', ascii ''B'', ascii ''C''] example_acd"
  have 1: "set (columns ?al) = set [ascii ''A'', ascii ''B'', ascii ''C'']"
    using sa by blast
  have 2: "length (rows ?al) = length (rows example_acd)"
    using sa by blast
  have "\<forall>i < length (rows example_acd). \<forall>c. cell (rows ?al ! i) c =
      (if c \<in> set [ascii ''A'', ascii ''B'', ascii ''C''] \<and> c \<notin> set (columns example_acd)
       then NaN else cell (rows example_acd ! i) c)"
    using sa by blast
  then have 3: "cell (rows ?al ! 0) c =
      (if c \<in> set [ascii ''A'', ascii ''B'', ascii ''C''] \<and> c \<notin> set (columns example_acd)
       then NaN else cell (rows example_acd ! 0) c)" for c
    using r(1) by simp
  show ?thesis using n by (simp add: 1 2 3 r)
qed

text \<open>
  The claim as the specification states it fails on its own example: with the required
  columns A, B, C and a table with the columns A, C, D, the columns sent are A, C, B.
\<close>

theorem schema_alignment_counterexample:
  "columns (align [ascii ''A'', ascii ''B'', ascii ''C''] example_acd)
     = [ascii ''A'', ascii ''C'', ascii ''B'']"
  using columns_align [OF abc_distinct, of example_acd]
  by (simp add: example_acd_def missing_columns_def ascii_def)

lemma pred_cols_neq:
  "col_pred15_score \<noteq> col_pred15" "col_pred6_score \<noteq> col_pred6"
  "col_pred15_score \<noteq> col_pred6_score" "col_pred15_score \<noteq> col_pred6"
  "col_pred15 \<noteq> col_pred6_score" "col_pred15 \<noteq> col_pred6"
  using pred_cols_distinct by auto

lemma score_course_1_InrD:
  assumes "score_course_1 st p s = Inr s1" "\<not> empty_frame (test_df s)"
  shows "\<exists>b. load_booster st p = Inr b \<and>
     test_df s1 = attach col_pred15_score col_pred15 b (fst (extract_threshold_from_filename p)) (test_df s)"
proof (cases "load_booster st p")
  case (Inl e)
  with assms show ?thesis by (simp add: score_course_1_raise)
next
  case (Inr b)
  with assms show ?thesis by (auto simp: score_course_1_ok)
qed

lemma score_course_6_InrD:
  assumes "score_course_6 st p s = Inr s1" "\<not> empty_frame (test_df6 s)"
  shows "\<exists>b. load_booster st p = Inr b \<and>
     test_df6 s1 = attach col_pred6_score col_pred6 b (fst (extract_threshold_from_filename p)) (test_df6 s)"
proof (cases "load_booster st p")
  case (Inl e)
  with assms show ?thesis by (simp add: score_course_6_raise)
next
  case (Inr b)
  with assms show ?thesis by (auto simp: score_course_6_ok)
qed

lemma flag_attach:
  assumes "i < length (rows df)" "sc \<noteq> fc"
  shows "cell (rows (attach sc fc b t df) ! i) fc =
     (if fgt (cell (rows (attach sc fc b t df) ! i) sc) t then Fin 1 else Fin 0)"
  using assms by (simp add: cell_attach)

text \<open>
  Claim C8. In each of the two scoring blocks, the flag of every scored row is 1 when the
  score of the row is greater than the threshold of the model and 0 otherwise; on finite
  scores the comparison is the strict order, and a score equal to the threshold gives 0.
\<close>

theorem binarization_strict:
  "(score_course_1 st p1 s = Inr s1 \<and> \<not> empty_frame (test_df s) \<and> i < length (rows (test_df s1)) \<longrightarrow>
      cell (rows (test_df s1) ! i) col_pred15 =
        (if fgt (cell (rows (test_df s1) ! i) col_pred15_score)
              (fst (extract_threshold_from_filename p1)) then Fin 1 else Fin 0))
   \<and> (score_course_6 st p6 s = Inr s6 \<and> \<not> empty_frame (test_df6 s) \<and> j < length (rows (test_df6 s6)) \<longrightarrow>
      cell (rows (test_df6 s6) ! j) col_pred6 =
        (if fgt (cell (rows (test_df6 s6) ! j) col_pred6_score)
              (fst (extract_threshold_from_filename p6)) then Fin 1 else Fin 0))
   \<and> (fgt (Fin q) t \<longleftrightarrow> t < q)
   \<and> binarize t [Fin t] = [0]"
proof (intro conjI impI)
  assume a: "score_course_1 st p1 s = Inr s1 \<and> \<not> empty_frame (test_df s) \<and> i < length (rows (test_df s1))"
  then obtain b where
    "test_df s1 = attach col_pred15_score col_pred15 b (fst (extract_threshold_from_filename p1)) (test_df s)"
    using score_course_1_InrD by blast
  with a show "cell (rows (test_df s1) ! i) col_pred15 =
        (if fgt (cell (rows (test_df s1) ! i) col_pred15_score)
              (fst (extract_threshold_from_filename p1)) then Fin 1 else Fin 0)"
    using flag_attach [OF _ pred_cols_neq(1)] by simp
next
  assume a: "score_course_6 st p6 s = Inr s6 \<and> \<not> empty_frame (test_df6 s) \<and> j < length (rows (test_df6 s6))"
  then obtain b where
    "test_df6 s6 = attach col_pred6_score col_pred6 b (fst (extract_threshold_from_filename p6)) (test_df6 s)"
    using score_course_6_InrD by blast
  with a show "cell (rows (test_df6 s6) ! j) col_pred6 =
        (if fgt (cell (rows (test_df6 s6) ! j) col_pred6_score)
              (fst (extract_threshold_from_filename p6)) then Fin 1 else Fin 0)"
    using flag_attach [OF _ pred_cols_neq(2)] by simp
next
  show "fgt (Fin q) t \<longleftrightarrow> t < q" by (simp add: fgt_def)
next
  show "binarize t [Fin t] = [0]" by (simp add: binarize_def fgt_def)
qed


lemma example_session_nonempty:
  "\<not> empty_frame (test_df example_session)" "\<not> empty_frame (test_df6 example_session)"
  by (simp_all add: example_session_def empty_frame_def example_df_def example_row_def)

lemma example_scores:
  "predict (example_booster k) (map (cell (rows example_df ! 3)) (columns example_df)) = Fin (4 * k)"
  "predict (example_booster k) (map (cell (rows example_df ! 4)) (columns example_df)) = Fin (5 * k)"
  "predict (example_booster k) (map (cell (example_row 5)) (columns example_df)) = Fin (6 * k)"
  by (simp_all add: example_df_def example_row_def example_booster_def)

theorem binarization_strict_witness:
  "\<exists>s1 s6. score_course_1 (example_storage True True) edogawa_1 example_session = Inr s1
     \<and> score_course_6 (example_storage True True) edogawa_6 example_session = Inr s6
     \<and> cell (rows (test_df s1) ! 3) col_pred15_score = Fin (4 / 5)
     \<and> cell (rows (test_df s1) ! 3) col_pred15 = Fin 0
     \<and> cell (rows (test_df s1) ! 4) col_pred15_score = Fin 1
     \<and> cell (rows (test_df s1) ! 4) col_pred15 = Fin 1
     \<and> cell (rows (test_df6 s6) ! 0) col_pred6_score = Fin 1
     \<and> cell (rows (test_df6 s6) ! 0) col_pred6 = Fin 1
     \<and> binarize (41 / 50) [Fin (41 / 50)] = [0]"
proof -
  let ?st = "example_storage True True" and ?s = example_session
  from score_course_1_ok [OF example_session_nonempty(1) example_load(1), of True]
  obtain s1 where 1: "score_course_1 ?st edogawa_1 ?s = Inr s1"
    and t1: "test_df s1 = attach col_pred15_score col_pred15 (example_booster (1 / 5)) (41 / 50) example_df"
    by (simp add: example_thresholds example_session_def)
  from score_course_6_ok [OF example_session_nonempty(2) example_load(2), of True]
  obtain s6 where 6: "score_course_6 ?st edogawa_6 ?s = Inr s6"
    and t6: "test_df6 s6 = attach col_pred6_score col_pred6 (example_booster (1 / 6)) (19 / 20)
        (test_df6 example_session)"
    by (simp add: example_thresholds)
  have r6: "rows (test_df6 example_session) = [example_row 5]"
    "columns (test_df6 example_session) = columns example_df"
    by (simp_all add: example_session_def example_df_def example_row_def)
  have len: "length (rows example_df) = 6" by (simp add: example_df_def)
  have sc3: "cell (rows (test_df s1) ! 3) col_pred15_score = Fin (4 / 5)"
    and sc4: "cell (rows (test_df s1) ! 4) col_pred15_score = Fin 1"
    using pred_cols_neq(1) len by (simp_all add: t1 cell_attach example_scores)
  have sc6: "cell (rows (test_df6 s6) ! 0) col_pred6_score = Fin 1"
    using pred_cols_neq(2) by (simp add: t6 cell_attach r6 example_scores)
  have l1: "3 < length (rows (test_df s1))" "4 < length (rows (test_df s1))"
    using len by (simp_all add: t1)
  have l6: "0 < length (rows (test_df6 s6))" by (simp add: t6 r6)
  have f3: "cell (rows (test_df s1) ! 3) col_pred15 = Fin 0"
    using binarization_strict [of ?st edogawa_1 ?s s1 3] 1 example_session_nonempty(1) l1(1)
    by (simp add: sc3 example_thresholds fgt_def)
  have f4: "cell (rows (test_df s1) ! 4) col_pred15 = Fin 1"
    using binarization_strict [of ?st edogawa_1 ?s s1 4] 1 example_session_nonempty(1) l1(2)
    by (simp add: sc4 example_thresholds fgt_def)
  have f6: "cell (rows (test_df6 s6) ! 0) col_pred6 = Fin 1"
    using binarization_strict [of ?st _ ?s _ _ edogawa_6 s6 0] 6 example_session_nonempty(2) l6
    by (simp add: sc6 example_thresholds fgt_def)
  have b: "binarize (41 / 50) [Fin (41 / 50)] = [0]"
    using binarization_strict [of ?st edogawa_1 ?s s1 3 edogawa_6 s6 0 "41 / 50" "41 / 50"] by blast
  show ?thesis using 1 6 sc3 sc4 sc6 f3 f4 f6 b by blast
qed




section \<open>Feature derivation: completeness\<close>

lemma those_None_iff: "those xs = None \<longleftrightarrow> None \<in> set xs"
  by (induction xs) (auto split: option.splits)

lemma those_Some_map: "those xs = Some ys \<Longrightarrow> xs = map Some ys"
  by (induction xs arbitrary: ys) (auto split: option.splits)

lemma fillna0_not_nan: "fillna0 x \<noteq> NaN"
  by (simp add: fillna0_def)

lemma final_cell_not_nan: "final_cell lib c \<noteq> NaN"
  by (cases c) (simp_all add: final_cell_def fillna0_not_nan)

lemma map_of_final_row: "map_of (final_row lib cs) n = map_option (final_cell lib) (map_of cs n)"
  by (induction cs) (auto simp: final_row_def)

lemma cell_table_row:
  "cell (table_row i (final_row lib cs)) n =
     (case map_of cs n of Some c \<Rightarrow> final_cell lib c | None \<Rightarrow> NaN)"
  by (simp add: table_row_def map_of_final_row split: option.splits)


lemma names_feature_row: "map fst (feature_row lib raw r age f) = feature_columns"
  by (simp add: feature_columns_def feature_row_def race_stats_def opp_features_def)

lemma prepare_df_InrD:
  assumes "prepare_df lib raw = Inr out"
  shows "\<exists>ages fs. map (age_float lib) raw = map Some ages \<and> map f_count_int raw = map Some fs
     \<and> columns out = feature_columns
     \<and> length (rows out) = length raw
     \<and> (\<forall>i < length raw. rows out ! i =
            table_row i (final_row lib (feature_row lib raw (raw ! i) (ages ! i) (fs ! i))))"
proof -
  from assms obtain ages where a: "those (map (age_float lib) raw) = Some ages"
    by (auto simp: prepare_df_def split: option.splits)
  from assms a obtain fs where f: "those (map f_count_int raw) = Some fs"
    by (auto simp: prepare_df_def split: option.splits)
  have la: "length ages = length raw" using those_Some_map [OF a] by (metis length_map)
  have lf: "length fs = length raw" using those_Some_map [OF f] by (metis length_map)
  have out: "out = \<lparr>columns = feature_columns,
                    rows = map (\<lambda>(i, r, age, f_count).
                                  table_row i (final_row lib (feature_row lib raw r age f_count)))
                             (zip [0..<length raw] (zip raw (zip ages fs)))\<rparr>"
    using assms a f by (simp add: prepare_df_def)
  show ?thesis
    using those_Some_map [OF a] those_Some_map [OF f] la lf
    by (intro exI [of _ ages] exI [of _ fs]) (simp add: out)
qed

lemma prepare_df_returns:
  assumes "\<forall>r \<in> set raw. age_float lib r \<noteq> None" "\<forall>r \<in> set raw. f_count_int r \<noteq> None"
  shows "\<exists>out. prepare_df lib raw = Inr out"
proof -
  have "those (map (age_float lib) raw) \<noteq> None" "those (map f_count_int raw) \<noteq> None"
    using assms by (auto simp: those_None_iff)
  then show ?thesis by (auto simp: prepare_df_def)
qed

lemma prepare_df_bad_age:
  assumes "r \<in> set raw" "to_float lib (take 2 (raw_age r)) = None"
  shows "prepare_df lib raw = Inl ValueError"
proof -
  have "None \<in> set (map (age_float lib) raw)"
    using assms by (force simp: age_float_def)
  then have "those (map (age_float lib) raw) = None" by (simp add: those_None_iff)
  then show ?thesis by (simp add: prepare_df_def)
qed

text \<open>
  Claim C6. In every table that \<open>prepare_df\<close> returns there is one row for each record
  of the batch, and no cell of a column of the table is \<open>NaN\<close>: every cell is a number.
\<close>

theorem prepare_df_complete:
  assumes "prepare_df lib raw = Inr out"
  shows "length (rows out) = length raw
     \<and> (\<forall>r \<in> set (rows out). \<forall>c \<in> set (columns out). cell r c \<noteq> NaN)"
proof -
  from prepare_df_InrD [OF assms] obtain ages fs where
    cols: "columns out = feature_columns" and len: "length (rows out) = length raw"
    and rows: "\<forall>i < length raw. rows out ! i =
            table_row i (final_row lib (feature_row lib raw (raw ! i) (ages ! i) (fs ! i)))"
    by blast
  have "cell r c \<noteq> NaN" if r: "r \<in> set (rows out)" and c: "c \<in> set (columns out)" for r c
  proof -
    from r obtain i where i: "i < length raw" "r = rows out ! i"
      using len by (metis in_set_conv_nth)
    let ?cs = "feature_row lib raw (raw ! i) (ages ! i) (fs ! i)"
    have "c \<in> fst ` set ?cs"
      using c cols names_feature_row [of lib raw "raw ! i" "ages ! i" "fs ! i"] by (metis set_map)
    then obtain x where "map_of ?cs c = Some x"
      by (metis domIff dom_map_of_conv_image_fst not_Some_eq)
    then show ?thesis
      using i rows by (simp add: cell_table_row final_cell_not_nan)
  qed
  with len show ?thesis by blast
qed

lemmas example_lib_defs = example_lib_def parse_decimal_def is_digit_def is_digits_def
  digits_val_def float_of_group_def ascii_def Let_def

lemma example_ages: "age_float example_lib (example_raw i) = Some (Fin 35)"
  by (simp add: age_float_def example_raw_def example_lib_defs)

lemma example_f_counts: "f_count_int (example_raw i) = Some 0"
  by (simp add: f_count_int_def example_raw_def is_digit_def digits_val_def ascii_def)

lemma example_returns: "\<exists>out. prepare_df example_lib example_batch = Inr out"
  by (rule prepare_df_returns) (simp_all add: example_batch_def example_ages example_f_counts)

theorem prepare_df_complete_witness:
  "\<exists>out. prepare_df example_lib example_batch = Inr out
     \<and> length (rows out) = 6
     \<and> cell (rows out ! 5) c_mean_st \<noteq> NaN
     \<and> cell (rows out ! 5) c_st_stability \<noteq> NaN"
proof -
  from example_returns obtain out where out: "prepare_df example_lib example_batch = Inr out" ..
  from prepare_df_InrD [OF out] have cols: "columns out = feature_columns" by blast
  have c: "c_mean_st \<in> set (columns out)" "c_st_stability \<in> set (columns out)"
    by (simp_all add: cols feature_columns_def feature_row_def)
  from prepare_df_complete [OF out]
  have len: "length (rows out) = 6"
    and all: "\<forall>r \<in> set (rows out). \<forall>c \<in> set (columns out). cell r c \<noteq> NaN"
    by (simp_all add: example_batch_def)
  have "rows out ! 5 \<in> set (rows out)" using len by simp
  with all c out len show ?thesis by blast
qed

section \<open>Feature derivation: an age that is no number\<close>

text \<open>
  Claim C5 fails on the code. The weight, the start timing, the rates, the exhibition and
  the tilt are read with \<open>pd.to_numeric(errors='coerce')\<close>, which gives a missing value
  for a text that is no number; the age is read with \<open>astype(float)\<close>, which raises
  \<open>ValueError\<close>. On the example race with an empty age in one row, \<open>prepare_df\<close> raises.
\<close>

theorem prepare_df_age_raises:
  "prepare_df example_lib example_bad_age = Inl ValueError"
proof -
  let ?r = "(example_raw 2)\<lparr>raw_age := []\<rparr>"
  have "?r \<in> set example_bad_age"
    by (simp add: example_bad_age_def example_batch_def)
  moreover have "to_float example_lib (take 2 (raw_age ?r)) = None"
    by (simp add: example_lib_defs)
  ultimately show ?thesis by (rule prepare_df_bad_age)
qed

section \<open>Feature derivation: the mean of the opponents\<close>



















end
